theory Spec2Isabelle
  imports Main
begin

section \<open>Values and the object store\<close>

text \<open>
  The provider module of react-intl (\<^verbatim>\<open>src/packages/react-intl/src/components/provider.tsx\<close>)
  works on JavaScript objects: configuration objects, maps of substitution values and the
  formatting shape it returns. Objects have identity and are compared by reference, so
  they live in a store; a value is a primitive or a reference into the store. A reference
  carries the kind of what it points to (plain object, array or function): an object never
  changes its kind, and \<^verbatim>\<open>typeof\<close> and \<^verbatim>\<open>Array.isArray\<close> read nothing else.

  Numbers are integer-valued here: the module passes numbers on and never computes with
  them.
\<close>

type_synonym addr = nat

datatype jsval =
    Undefined
  | Null
  | JBool bool
  | JNum int
  | JStr string
  | ObjRef addr
  | ArrRef addr
  | FunRef addr

text \<open>
  The own enumerable properties of an object, in the order in which they were created.
  (JavaScript lists integer-like keys first; no key written by this module is one.)
\<close>

type_synonym props = "(string \<times> jsval) list"

text \<open>What a function object of the store is, as far as this module creates it.\<close>

datatype closure =
    Opaque
  | KeyAssigning jsval
  | Accessor string jsval
  | Bound string "jsval list"

datatype cell =
    Object props
  | Elements "jsval list"
  | Closure closure
  | Element "string option" jsval

type_synonym heap = "cell list"

text \<open>
  An object literal, an array literal or a function expression creates a new cell. A cell
  is a plain object, an array with its elements, a function, or a renderable element
  (a React element) with its key, if it has one, and what else it holds (its type and
  props, which nothing here reads).
\<close>

definition alloc :: "heap \<Rightarrow> cell \<Rightarrow> addr \<times> heap" where
  "alloc h c = (length h, h @ [c])"

text \<open>JavaScript's truthiness, as \<^verbatim>\<open>!x\<close>, \<^verbatim>\<open>x || y\<close> and \<^verbatim>\<open>if (x)\<close> use it.\<close>

fun truthy :: "jsval \<Rightarrow> bool" where
  "truthy Undefined = False"
| "truthy Null = False"
| "truthy (JBool b) = b"
| "truthy (JNum n) = (n \<noteq> 0)"
| "truthy (JStr s) = (s \<noteq> [])"
| "truthy (ObjRef a) = True"
| "truthy (ArrRef a) = True"
| "truthy (FunRef a) = True"

text \<open>
  The properties of the object at an address. An address that holds no plain object has
  no property that this module can read.
\<close>

definition props_of :: "heap \<Rightarrow> addr \<Rightarrow> props" where
  "props_of h a =
     (if a < length h then (case h ! a of Object ps \<Rightarrow> ps | _ \<Rightarrow> []) else [])"

text \<open>\<^verbatim>\<open>o.k\<close>: the value of the property, \<^verbatim>\<open>undefined\<close> when the object has none.\<close>

definition getField :: "props \<Rightarrow> string \<Rightarrow> jsval" where
  "getField ps k = (case map_of ps k of Some v \<Rightarrow> v | None \<Rightarrow> Undefined)"

text \<open>\<^verbatim>\<open>o[k] = v\<close>: an existing property keeps its place, a new one goes last.\<close>

fun setField :: "string \<Rightarrow> jsval \<Rightarrow> props \<Rightarrow> props" where
  "setField k v [] = [(k, v)]"
| "setField k v ((k', v') # ps) =
     (if k' = k then (k, v) # ps else (k', v') # setField k v ps)"

text \<open>
  \<^verbatim>\<open>Object.keys(o)\<close>. An object has each key once; \<open>remdups\<close> makes that true of
  every list.
\<close>

definition ownKeys :: "props \<Rightarrow> string list" where
  "ownKeys ps = remdups (map fst ps)"

text \<open>Copying the properties \<open>ks\<close> of \<open>src\<close> onto \<open>acc\<close>, one assignment each.\<close>

definition copyKeys :: "props \<Rightarrow> string list \<Rightarrow> props \<Rightarrow> props" where
  "copyKeys src ks acc = fold (\<lambda>k. setField k (getField src k)) ks acc"

text \<open>The spread \<^verbatim>\<open>{...acc, ...src}\<close>, continuing an object literal that holds \<open>acc\<close>.\<close>

definition spread :: "props \<Rightarrow> props \<Rightarrow> props" where
  "spread src acc = copyKeys src (ownKeys src) acc"

subsection \<open>Collaborators\<close>

datatype error = RangeError | TypeError

datatype diagnostic = InvalidConfigError string | MissingDataError string

text \<open>A call of a callback: the function called and the diagnostic it was given.\<close>

type_synonym call = "addr \<times> diagnostic"

text \<open>
  What the module imports and this development does not define: the constant
  \<^verbatim>\<open>DEFAULT_INTL_CONFIG\<close> (its own properties), the platform's locale support
  (\<^verbatim>\<open>Intl.NumberFormat.supportedLocalesOf\<close> and
  \<^verbatim>\<open>Intl.DateTimeFormat.supportedLocalesOf\<close>: both first canonicalize their argument
  and throw a \<^verbatim>\<open>RangeError\<close> when it is no well-formed language tag, then return the
  supported ones of the requested locales), the string conversion of objects, the core
  message formatter of \<^verbatim>\<open>@formatjs/intl\<close> and \<^verbatim>\<open>React.Children.toArray\<close>.
\<close>

record env =
  DEFAULT_INTL_CONFIG :: props
  canonicalizable :: "jsval \<Rightarrow> bool"
  numberFormatLocales :: "jsval \<Rightarrow> string list"
  dateTimeFormatLocales :: "jsval \<Rightarrow> string list"
  refToString :: "jsval \<Rightarrow> string"
  coreFormatMessage :: "heap \<Rightarrow> jsval \<Rightarrow> jsval \<Rightarrow> jsval \<Rightarrow> jsval \<Rightarrow> error + (jsval \<times> heap)"
  Children_toArray :: "heap \<Rightarrow> jsval \<Rightarrow> error + (jsval \<times> heap)"

section \<open>The configuration normalizer\<close>

text \<open>\<^verbatim>\<open>processIntlConfig\<close> (lines 66 to 81): an object literal of ten properties.\<close>

definition processIntlConfig :: "heap \<Rightarrow> addr \<Rightarrow> addr \<times> heap" where
  "processIntlConfig h config =
     (let c = props_of h config in
      alloc h (Object
        [(''locale'', getField c ''locale''),
         (''timeZone'', getField c ''timeZone''),
         (''formats'', getField c ''formats''),
         (''textComponent'', getField c ''textComponent''),
         (''messages'', getField c ''messages''),
         (''defaultLocale'', getField c ''defaultLocale''),
         (''defaultFormats'', getField c ''defaultFormats''),
         (''onError'', getField c ''onError''),
         (''wrapRichTextChunksInFragment'', getField c ''wrapRichTextChunksInFragment''),
         (''defaultRichTextElements'', getField c ''defaultRichTextElements'')]))"

text \<open>
  Modelled from the spec: \<^verbatim>\<open>shallowEquals\<close> is the package \<^verbatim>\<open>shallow-equal\<close>, which
  is not among the sources. The spec (4.2): two objects are equal if both have the same
  set of keys and each corresponding value is reference-equal. Reference equality
  (\<^verbatim>\<open>===\<close>) of two values is their equality as \<open>jsval\<close>.
\<close>

definition shallowEquals :: "heap \<Rightarrow> addr \<Rightarrow> addr \<Rightarrow> bool" where
  "shallowEquals h a b =
     (let pa = props_of h a; pb = props_of h b in
      set (ownKeys pa) = set (ownKeys pb) \<and>
      list_all (\<lambda>k. getField pa k = getField pb k) (ownKeys pa))"

section \<open>Rich-text key assignment\<close>

text \<open>
  Modelled from the spec: \<^verbatim>\<open>isFormatXMLElementFn\<close> is imported from
  \<^verbatim>\<open>intl-messageformat\<close>. The spec (4.5) calls these values the function-valued entries.
\<close>

fun isFormatXMLElementFn :: "jsval \<Rightarrow> bool" where
  "isFormatXMLElementFn (FunRef a) = True"
| "isFormatXMLElementFn v = False"

text \<open>
  Modelled from the spec: \<^verbatim>\<open>assignUniqueKeysToParts\<close> is defined in \<^verbatim>\<open>../utils\<close>,
  which is not among the sources. The spec (4.5): the function is wrapped, so that every
  invocation gives its output an identity. The wrapper is a new function that holds the
  one it wraps.
\<close>

definition assignUniqueKeysToParts :: "heap \<Rightarrow> jsval \<Rightarrow> jsval \<times> heap" where
  "assignUniqueKeysToParts h f =
     (let (a, h') = alloc h (Closure (KeyAssigning f)) in (FunRef a, h'))"

text \<open>
  The callback of the \<^verbatim>\<open>reduce\<close> (lines 99 to 105), run over the keys: it reads
  \<^verbatim>\<open>values[k]\<close>, wraps it when it is a function, and assigns the result to
  \<^verbatim>\<open>acc[k]\<close>, in place.
\<close>

fun reduceKeys :: "heap \<Rightarrow> jsval \<Rightarrow> addr \<Rightarrow> string list \<Rightarrow> heap" where
  "reduceKeys h values acc [] = h"
| "reduceKeys h values acc (k # ks) =
     (let v = getField (case values of ObjRef a \<Rightarrow> props_of h a | _ \<Rightarrow> []) k;
          (w, h1) = (if isFormatXMLElementFn v then assignUniqueKeysToParts h v else (v, h));
          h2 = h1[acc := Object (setField k w (props_of h1 acc))]
      in reduceKeys h2 values acc ks)"

text \<open>
  \<^verbatim>\<open>assignUniqueKeysToFormatXMLElementFnArgument\<close> (lines 83 to 106). The parameter is
  a record of values or \<^verbatim>\<open>undefined\<close>. (A truthy value that is no plain object,
  which the parameter type excludes, is given no keys here.)
\<close>

definition assignUniqueKeysToFormatXMLElementFnArgument :: "heap \<Rightarrow> jsval \<Rightarrow> jsval \<times> heap" where
  "assignUniqueKeysToFormatXMLElementFnArgument h values =
     (if \<not> truthy values then (values, h)
      else
        let keys = ownKeys (case values of ObjRef a \<Rightarrow> props_of h a | _ \<Rightarrow> []);
            (acc, h0) = alloc h (Object [])
        in (ObjRef acc, reduceKeys h0 values acc keys))"

section \<open>The context builder\<close>

subsection \<open>Diagnostics\<close>

fun nat_to_string :: "nat \<Rightarrow> string" where
  "nat_to_string n =
     (if n < 10 then [char_of (48 + n)]
      else nat_to_string (n div 10) @ [char_of (48 + n mod 10)])"

declare nat_to_string.simps [simp del]

text \<open>
  The string conversion of a template literal (\<^verbatim>\<open>${x}\<close>). What an object, an array or
  a function converts to is decided by the object; the configuration types give the
  locale fields the type string.
\<close>

fun ToString :: "env \<Rightarrow> jsval \<Rightarrow> string" where
  "ToString env Undefined = ''undefined''"
| "ToString env Null = ''null''"
| "ToString env (JBool b) = (if b then ''true'' else ''false'')"
| "ToString env (JNum n) = (if n < 0 then ''-'' @ nat_to_string (nat (- n)) else nat_to_string (nat n))"
| "ToString env (JStr s) = s"
| "ToString env v = refToString env v"

text \<open>The three messages of lines 154, 167 and 176.\<close>

definition invalidConfigMessage :: "env \<Rightarrow> jsval \<Rightarrow> string" where
  \<open>invalidConfigMessage env defaultLocale =
     ''"locale" was not configured, using "'' @ ToString env defaultLocale @
     ''" as fallback. See https://formatjs.io/docs/react-intl/api#intlshape for more details''\<close>

definition missingNumberFormatMessage :: "env \<Rightarrow> jsval \<Rightarrow> jsval \<Rightarrow> string" where
  \<open>missingNumberFormatMessage env locale defaultLocale =
     ''Missing locale data for locale: "'' @ ToString env locale @
     ''" in Intl.NumberFormat. Using default locale: "'' @ ToString env defaultLocale @
     ''" as fallback. See https://formatjs.io/docs/react-intl#runtime-requirements for more details''\<close>

definition missingDateTimeFormatMessage :: "env \<Rightarrow> jsval \<Rightarrow> jsval \<Rightarrow> string" where
  \<open>missingDateTimeFormatMessage env locale defaultLocale =
     ''Missing locale data for locale: "'' @ ToString env locale @
     ''" in Intl.DateTimeFormat. Using default locale: "'' @ ToString env defaultLocale @
     ''" as fallback. See https://formatjs.io/docs/react-intl#runtime-requirements for more details''\<close>

text \<open>The platform's two queries: a malformed argument makes either of them throw.\<close>

definition Intl_NumberFormat_supportedLocalesOf :: "env \<Rightarrow> jsval \<Rightarrow> error + string list" where
  "Intl_NumberFormat_supportedLocalesOf env locales =
     (if canonicalizable env locales then Inr (numberFormatLocales env locales) else Inl RangeError)"

definition Intl_DateTimeFormat_supportedLocalesOf :: "env \<Rightarrow> jsval \<Rightarrow> error + string list" where
  "Intl_DateTimeFormat_supportedLocalesOf env locales =
     (if canonicalizable env locales then Inr (dateTimeFormatLocales env locales) else Inl RangeError)"

text \<open>
  The call \<^verbatim>\<open>onError(d)\<close>. Calling what is no function throws; what the callback
  itself does is its own business, and the call is recorded.
\<close>

fun invoke :: "jsval \<Rightarrow> diagnostic \<Rightarrow> error + call list" where
  "invoke (FunRef f) d = Inr [(f, d)]"
| "invoke v d = Inl TypeError"

subsection \<open>Formatters and bound functions\<close>

text \<open>
  Modelled from the spec: \<^verbatim>\<open>createFormatters\<close> is imported from \<^verbatim>\<open>@formatjs/intl\<close>.
  The spec (4.3, step 4, and 4.4): it yields one lazily constructing accessor function for
  each formatter kind, each memoizing in the cache it was given.
\<close>

definition formatterKinds :: "string list" where
  "formatterKinds =
     [''getNumberFormat'', ''getDateTimeFormat'', ''getRelativeTimeFormat'',
      ''getPluralRules'', ''getListFormat'', ''getDisplayNames'']"

definition createFormatters :: "heap \<Rightarrow> jsval \<Rightarrow> addr \<times> heap" where
  "createFormatters h cache =
     (let h1 = h @ map (\<lambda>kind. Closure (Accessor kind cache)) formatterKinds in
      alloc h1 (Object (zip formatterKinds
                          (map FunRef [length h ..< length h + length formatterKinds]))))"

text \<open>\<^verbatim>\<open>f.bind(null, ...args)\<close>: a new function that holds \<open>f\<close> and the arguments.\<close>

definition bindFn :: "heap \<Rightarrow> string \<Rightarrow> jsval list \<Rightarrow> jsval \<times> heap" where
  "bindFn h f args = (let (a, h') = alloc h (Closure (Bound f args)) in (FunRef a, h'))"

text \<open>The object literal of lines 180 to 230.\<close>

definition intlShape :: "heap \<Rightarrow> addr \<Rightarrow> addr \<Rightarrow> jsval \<times> heap" where
  "intlShape h resolvedConfig formatters =
     (let fs = props_of h formatters;
          rc = ObjRef resolvedConfig;
          base = spread (props_of h resolvedConfig) [];
          (formatNumber, h1) = bindFn h ''formatNumber'' [rc, getField fs ''getNumberFormat''];
          (formatNumberToParts, h2) =
             bindFn h1 ''formatNumberToParts'' [rc, getField fs ''getNumberFormat''];
          (formatRelativeTime, h3) =
             bindFn h2 ''formatRelativeTime'' [rc, getField fs ''getRelativeTimeFormat''];
          (formatDate, h4) = bindFn h3 ''formatDate'' [rc, getField fs ''getDateTimeFormat''];
          (formatDateToParts, h5) =
             bindFn h4 ''formatDateToParts'' [rc, getField fs ''getDateTimeFormat''];
          (formatTime, h6) = bindFn h5 ''formatTime'' [rc, getField fs ''getDateTimeFormat''];
          (formatTimeToParts, h7) =
             bindFn h6 ''formatTimeToParts'' [rc, getField fs ''getDateTimeFormat''];
          (formatPlural, h8) = bindFn h7 ''formatPlural'' [rc, getField fs ''getPluralRules''];
          (formatMessage, h9) = bindFn h8 ''formatMessage'' [rc, ObjRef formatters];
          (formatList, h10) = bindFn h9 ''formatList'' [rc, getField fs ''getListFormat''];
          (formatDisplayName, h11) =
             bindFn h10 ''formatDisplayName'' [rc, getField fs ''getDisplayNames''];
          (shape, h12) = alloc h11 (Object (fold (\<lambda>(k, v). setField k v)
             [(''formatters'', ObjRef formatters),
              (''formatNumber'', formatNumber),
              (''formatNumberToParts'', formatNumberToParts),
              (''formatRelativeTime'', formatRelativeTime),
              (''formatDate'', formatDate),
              (''formatDateToParts'', formatDateToParts),
              (''formatTime'', formatTime),
              (''formatTimeToParts'', formatTimeToParts),
              (''formatPlural'', formatPlural),
              (''formatMessage'', formatMessage),
              (''formatList'', formatList),
              (''formatDisplayName'', formatDisplayName)] base))
      in (ObjRef shape, h12))"

subsection \<open>createIntl\<close>

text \<open>The rest pattern \<^verbatim>\<open>{defaultRichTextElements: _, ...config}\<close> of lines 133 to 136.\<close>

definition restConfig :: "props \<Rightarrow> props" where
  "restConfig arg =
     copyKeys arg (filter (\<lambda>k. k \<noteq> ''defaultRichTextElements'') (ownKeys arg)) []"

text \<open>\<^verbatim>\<open>{...DEFAULT_INTL_CONFIG, ...config}\<close>, the first two lines of the literal at 143.\<close>

definition mergedConfig :: "env \<Rightarrow> props \<Rightarrow> props" where
  "mergedConfig env config = spread config (spread (DEFAULT_INTL_CONFIG env) [])"

text \<open>
  Lines 149 to 179: the three checks, and the assignment of the fallback locale to
  \<^verbatim>\<open>resolvedConfig.locale\<close>.
\<close>

definition checkLocale :: "env \<Rightarrow> heap \<Rightarrow> addr \<Rightarrow> error + (heap \<times> call list)" where
  "checkLocale env h resolvedConfig =
     (let rc = props_of h resolvedConfig;
          locale = getField rc ''locale'';
          defaultLocale = getField rc ''defaultLocale'';
          onError = getField rc ''onError''
      in
      if \<not> truthy locale then
        (case (if truthy onError
               then invoke onError (InvalidConfigError (invalidConfigMessage env defaultLocale))
               else Inr []) of
           Inl e \<Rightarrow> Inl e
         | Inr calls \<Rightarrow>
             Inr (h[resolvedConfig := Object (setField ''locale''
                     (if truthy (getField rc ''defaultLocale'')
                      then getField rc ''defaultLocale'' else JStr ''en'') rc)],
                  calls))
      else
        (case Intl_NumberFormat_supportedLocalesOf env locale of
           Inl e \<Rightarrow> Inl e
         | Inr nf \<Rightarrow>
             if nf = [] \<and> truthy onError then
               (case invoke onError
                       (MissingDataError (missingNumberFormatMessage env locale defaultLocale)) of
                  Inl e \<Rightarrow> Inl e
                | Inr calls \<Rightarrow> Inr (h, calls))
             else
               (case Intl_DateTimeFormat_supportedLocalesOf env locale of
                  Inl e \<Rightarrow> Inl e
                | Inr dtf \<Rightarrow>
                    if dtf = [] \<and> truthy onError then
                      (case invoke onError
                              (MissingDataError
                                 (missingDateTimeFormatMessage env locale defaultLocale)) of
                         Inl e \<Rightarrow> Inl e
                       | Inr calls \<Rightarrow> Inr (h, calls))
                    else Inr (h, []))))"

text \<open>
  \<^verbatim>\<open>createIntl\<close> (lines 132 to 231). It returns the shape, the store and the calls of
  \<^verbatim>\<open>onError\<close> it made, or throws.
\<close>

definition createIntl :: "env \<Rightarrow> heap \<Rightarrow> addr \<Rightarrow> jsval \<Rightarrow> error + (jsval \<times> heap \<times> call list)" where
  "createIntl env h arg cache =
     (let rawDefaultRichTextElements = getField (props_of h arg) ''defaultRichTextElements'';
          (config, h1) = alloc h (Object (restConfig (props_of h arg)));
          (formatters, h2) = createFormatters h1 cache;
          (defaultRichTextElements, h3) =
             assignUniqueKeysToFormatXMLElementFnArgument h2 rawDefaultRichTextElements;
          (resolvedConfig, h4) =
             alloc h3 (Object (setField ''defaultRichTextElements'' defaultRichTextElements
                                 (mergedConfig env (props_of h3 config))))
      in
      case checkLocale env h4 resolvedConfig of
        Inl e \<Rightarrow> Inl e
      | Inr (h5, calls) \<Rightarrow>
          (let (shape, h6) = intlShape h5 resolvedConfig formatters in Inr (shape, h6, calls)))"

text \<open>
  A field of \<^verbatim>\<open>resolvedConfig\<close> as line 149 reads it (for a field other than
  \<^verbatim>\<open>defaultRichTextElements\<close>): the configuration's own property when it has one, even
  one that is \<^verbatim>\<open>undefined\<close>, and the default's otherwise.
\<close>

definition resolved :: "env \<Rightarrow> heap \<Rightarrow> addr \<Rightarrow> string \<Rightarrow> jsval" where
  "resolved env h arg k = getField (mergedConfig env (restConfig (props_of h arg))) k"

section \<open>The message formatter\<close>

fun isArray :: "jsval \<Rightarrow> bool" where
  "isArray (ArrRef a) = True"
| "isArray v = False"

text \<open>\<^verbatim>\<open>formatMessage\<close> (lines 108 to 125).\<close>

definition formatMessage ::
  "env \<Rightarrow> heap \<Rightarrow> jsval \<Rightarrow> jsval \<Rightarrow> jsval \<Rightarrow> jsval \<Rightarrow> error + (jsval \<times> heap)" where
  "formatMessage env h config formatters descriptor rawValues =
     (let (vals, h1) = assignUniqueKeysToFormatXMLElementFnArgument h rawValues in
      case coreFormatMessage env h1 config formatters descriptor vals of
        Inl e \<Rightarrow> Inl e
      | Inr (chunks, h2) \<Rightarrow>
          if isArray chunks then Children_toArray env h2 chunks else Inr (chunks, h2))"

section \<open>The provider and its change-detection gate\<close>

text \<open>The interface \<^verbatim>\<open>State\<close> (lines 43 to 58), and a partial state.\<close>

record State =
  cache :: jsval
  intl :: jsval
  prevConfig :: addr

record PartialState =
  new_cache :: "jsval option"
  new_intl :: "jsval option"
  new_prevConfig :: "addr option"

text \<open>\<^verbatim>\<open>getDerivedStateFromProps\<close> (lines 248 to 260); \<open>None\<close> is \<^verbatim>\<open>null\<close>.\<close>

definition getDerivedStateFromProps ::
  "env \<Rightarrow> heap \<Rightarrow> addr \<Rightarrow> State \<Rightarrow> error + (PartialState option \<times> heap \<times> call list)" where
  "getDerivedStateFromProps env h props st =
     (let (config, h1) = processIntlConfig h props in
      if \<not> shallowEquals h1 (prevConfig st) config then
        (case createIntl env h1 config (cache st) of
           Inl e \<Rightarrow> Inl e
         | Inr (shape, h2, calls) \<Rightarrow>
             Inr (Some \<lparr>new_cache = None, new_intl = Some shape, new_prevConfig = Some config\<rparr>,
                  h2, calls))
      else Inr (None, h1, []))"

text \<open>
  Modelled from the spec: the rendering collaborator (React) applies what
  \<^verbatim>\<open>getDerivedStateFromProps\<close> returns. The spec (4.2, 3): on "no rebuild" the state is
  retained as it is; on a rebuild the fields supplied replace the ones held.
\<close>

fun applyDerivedState :: "State \<Rightarrow> PartialState option \<Rightarrow> State" where
  "applyDerivedState st None = st"
| "applyDerivedState st (Some p) =
     \<lparr>cache = (case new_cache p of None \<Rightarrow> cache st | Some c \<Rightarrow> c),
      intl = (case new_intl p of None \<Rightarrow> intl st | Some i \<Rightarrow> i),
      prevConfig = (case new_prevConfig p of None \<Rightarrow> prevConfig st | Some c \<Rightarrow> c)\<rparr>"

text \<open>
  Modelled from the spec: \<^verbatim>\<open>createIntlCache\<close> is imported from \<^verbatim>\<open>@formatjs/intl\<close>.
  The spec (3): the cache is a mutable mapping from cache keys to formatter instances; a
  new one holds none.
\<close>

definition createIntlCache :: "heap \<Rightarrow> jsval \<times> heap" where
  "createIntlCache h = (let (a, h') = alloc h (Object []) in (ObjRef a, h'))"

text \<open>The field initialisers of the class \<^verbatim>\<open>IntlProvider\<close> (lines 241 to 246).\<close>

definition IntlProvider :: "env \<Rightarrow> heap \<Rightarrow> addr \<Rightarrow> error + (State \<times> heap \<times> call list)" where
  "IntlProvider env h props =
     (let (this_cache, h1) = createIntlCache h;
          (config, h2) = processIntlConfig h1 props
      in
      case createIntl env h2 config this_cache of
        Inl e \<Rightarrow> Inl e
      | Inr (shape, h3, calls) \<Rightarrow>
          (let (config', h4) = processIntlConfig h3 props in
           Inr (\<lparr>cache = this_cache, intl = shape, prevConfig = config'\<rparr>, h4, calls)))"

text \<open>
  The life of one provider after its construction: before each render React calls
  \<^verbatim>\<open>getDerivedStateFromProps\<close> with the props of that render and applies the result.
\<close>

fun renders :: "env \<Rightarrow> heap \<Rightarrow> State \<Rightarrow> addr list \<Rightarrow> error + (State \<times> heap \<times> call list)" where
  "renders env h st [] = Inr (st, h, [])"
| "renders env h st (props # rest) =
     (case getDerivedStateFromProps env h props st of
        Inl e \<Rightarrow> Inl e
      | Inr (partial, h1, calls) \<Rightarrow>
          (case renders env h1 (applyDerivedState st partial) rest of
             Inl e \<Rightarrow> Inl e
           | Inr (st', h2, calls') \<Rightarrow> Inr (st', h2, calls @ calls')))"

section \<open>What a formatting shape holds\<close>

text \<open>
  The names of the ten formatting functions that \<^verbatim>\<open>createIntl\<close> binds to an accessor
  of the formatters, each with the accessor it is bound to (lines 183 to 229);
  \<^verbatim>\<open>formatMessage\<close> is bound to the formatters themselves (line 223).
\<close>

definition formattingFunctions :: "(string \<times> string) list" where
  "formattingFunctions =
     [(''formatNumber'', ''getNumberFormat''),
      (''formatNumberToParts'', ''getNumberFormat''),
      (''formatRelativeTime'', ''getRelativeTimeFormat''),
      (''formatDate'', ''getDateTimeFormat''),
      (''formatDateToParts'', ''getDateTimeFormat''),
      (''formatTime'', ''getDateTimeFormat''),
      (''formatTimeToParts'', ''getDateTimeFormat''),
      (''formatPlural'', ''getPluralRules''),
      (''formatList'', ''getListFormat''),
      (''formatDisplayName'', ''getDisplayNames'')]"

text \<open>The properties that the shape adds to those of the resolved configuration.\<close>

definition shapeNames :: "string list" where
  "shapeNames = ''formatters'' # ''formatMessage'' # map fst formattingFunctions"

fun isBound :: "heap \<Rightarrow> jsval \<Rightarrow> string \<Rightarrow> jsval list \<Rightarrow> bool" where
  "isBound h (FunRef b) f args = (b < length h \<and> h ! b = Closure (Bound f args))"
| "isBound h v f args = False"

fun isAccessor :: "heap \<Rightarrow> jsval \<Rightarrow> string \<Rightarrow> jsval \<Rightarrow> bool" where
  "isAccessor h (FunRef b) kind c = (b < length h \<and> h ! b = Closure (Accessor kind c))"
| "isAccessor h v kind c = False"

text \<open>
  The formatters object \<open>fm\<close> holds, for each formatter kind, an accessor on the cache
  \<open>c\<close>.
\<close>

definition hasFormatters :: "heap \<Rightarrow> addr \<Rightarrow> jsval \<Rightarrow> bool" where
  "hasFormatters h fm c =
     list_all (\<lambda>kind. isAccessor h (getField (props_of h fm) kind) kind c) formatterKinds"

text \<open>
  A usable shape (spec 3, the formatting shape): it holds the formatters, which are
  accessors on the cache; each of its formatting functions is that function bound to the
  resolved configuration \<open>rc\<close> and to its accessor; \<^verbatim>\<open>formatMessage\<close> is bound to the
  resolved configuration and the formatters; and the locale that the functions will use,
  the one of the resolved configuration, is the locale that the shape shows.
\<close>

definition usableShape :: "heap \<Rightarrow> addr \<Rightarrow> addr \<Rightarrow> addr \<Rightarrow> jsval \<Rightarrow> bool" where
  "usableShape h shape rc fm c =
     (getField (props_of h shape) ''formatters'' = ObjRef fm \<and>
      hasFormatters h fm c \<and>
      list_all (\<lambda>(f, kind). isBound h (getField (props_of h shape) f) f
                                [ObjRef rc, getField (props_of h fm) kind])
        formattingFunctions \<and>
      isBound h (getField (props_of h shape) ''formatMessage'') ''formatMessage''
        [ObjRef rc, ObjRef fm] \<and>
      getField (props_of h rc) ''locale'' = getField (props_of h shape) ''locale'')"

section \<open>What React.Children.toArray does with an array of parts\<close>

text \<open>
  \<^verbatim>\<open>React.Children.toArray\<close> belongs to React, not to this repository, and it stays a
  parameter of \<^verbatim>\<open>formatMessage\<close>. To say what \<^verbatim>\<open>formatMessage\<close> returns for an array,
  this section writes down what React does with an array whose parts are text (strings
  and numbers), empty parts (\<^verbatim>\<open>undefined\<close>, \<^verbatim>\<open>null\<close>, booleans) and elements: text is
  passed on as it is, empty parts are left out, and an element is replaced by a copy whose
  key is made from the element's own key or, when it has none, from its position in the
  array. What React does with a part that is itself an array, another object or a function
  is not written down here (\<open>None\<close>).
\<close>

definition digit36 :: "nat \<Rightarrow> char" where
  "digit36 d = ''0123456789abcdefghijklmnopqrstuvwxyz'' ! d"

fun base36 :: "nat \<Rightarrow> string" where
  "base36 n = (if n < 36 then [digit36 n] else base36 (n div 36) @ [digit36 (n mod 36)])"

declare base36.simps [simp del]

text \<open>React's \<^verbatim>\<open>escape\<close> of an element's own key, and \<^verbatim>\<open>getElementKey\<close> after the separator.\<close>

definition escapeKey :: "string \<Rightarrow> string" where
  "escapeKey k =
     CHR ''$'' # concat (map (\<lambda>c. if c = CHR ''='' then ''=0''
                                   else if c = CHR '':'' then ''=2'' else [c]) k)"

definition elementKey :: "nat \<Rightarrow> string option \<Rightarrow> string" where
  "elementKey i key = CHR ''.'' # (case key of None \<Rightarrow> base36 i | Some k \<Rightarrow> escapeKey k)"

fun toArrayPart :: "heap \<Rightarrow> nat \<Rightarrow> jsval \<Rightarrow> (jsval list \<times> heap) option" where
  "toArrayPart h i Undefined = Some ([], h)"
| "toArrayPart h i Null = Some ([], h)"
| "toArrayPart h i (JBool b) = Some ([], h)"
| "toArrayPart h i (JNum n) = Some ([JNum n], h)"
| "toArrayPart h i (JStr s) = Some ([JStr s], h)"
| "toArrayPart h i (ObjRef e) =
     (if e < length h
      then (case h ! e of
              Element key body \<Rightarrow>
                Some ([ObjRef (length h)], h @ [Element (Some (elementKey i key)) body])
            | _ \<Rightarrow> None)
      else None)"
| "toArrayPart h i (ArrRef a) = None"
| "toArrayPart h i (FunRef f) = None"

fun toArrayParts :: "heap \<Rightarrow> nat \<Rightarrow> jsval list \<Rightarrow> (jsval list \<times> heap) option" where
  "toArrayParts h i [] = Some ([], h)"
| "toArrayParts h i (v # vs) =
     (case toArrayPart h i v of
        None \<Rightarrow> None
      | Some (xs, h1) \<Rightarrow>
          (case toArrayParts h1 (Suc i) vs of
             None \<Rightarrow> None
           | Some (ys, h2) \<Rightarrow> Some (xs @ ys, h2)))"

definition React_Children_toArray :: "heap \<Rightarrow> jsval \<Rightarrow> (jsval \<times> heap) option" where
  "React_Children_toArray h chunks =
     (case chunks of
        ArrRef a \<Rightarrow>
          (if a < length h
           then (case h ! a of
                   Elements parts \<Rightarrow>
                     (case toArrayParts h 0 parts of
                        None \<Rightarrow> None
                      | Some (rs, h') \<Rightarrow> Some (ArrRef (length h'), h' @ [Elements rs]))
                 | _ \<Rightarrow> None)
           else None)
      | _ \<Rightarrow> None)"

text \<open>The parts for which the behaviour is written down above.\<close>

fun modelledPart :: "heap \<Rightarrow> jsval \<Rightarrow> bool" where
  "modelledPart h (ObjRef e) =
     (e < length h \<and> (case h ! e of Element key body \<Rightarrow> True | _ \<Rightarrow> False))"
| "modelledPart h (ArrRef a) = False"
| "modelledPart h (FunRef f) = False"
| "modelledPart h v = True"

text \<open>
  A part as the rendering collaborator sees it: text, an element that carries a key, an
  element that carries none, or something else.
\<close>

datatype part_view = TextPart jsval | KeyedElement string jsval | UnkeyedElement jsval | OtherPart

fun viewPart :: "heap \<Rightarrow> jsval \<Rightarrow> part_view" where
  "viewPart h (JStr s) = TextPart (JStr s)"
| "viewPart h (JNum n) = TextPart (JNum n)"
| "viewPart h (ObjRef e) =
     (if e < length h
      then (case h ! e of
              Element (Some k) body \<Rightarrow> KeyedElement k body
            | Element None body \<Rightarrow> UnkeyedElement body
            | _ \<Rightarrow> OtherPart)
      else OtherPart)"
| "viewPart h v = OtherPart"

fun carriesKey :: "part_view \<Rightarrow> bool" where
  "carriesKey (KeyedElement k body) = True"
| "carriesKey v = False"

text \<open>
  The parts of an array after \<^verbatim>\<open>React.Children.toArray\<close>, as views: the text as it
  was, and each element with the key of its position \<open>i\<close> or of its own key.
\<close>

fun keyedViews :: "heap \<Rightarrow> nat \<Rightarrow> jsval list \<Rightarrow> part_view list" where
  "keyedViews h i [] = []"
| "keyedViews h i (v # vs) =
     (case viewPart h v of
        TextPart t \<Rightarrow> [TextPart t]
      | KeyedElement k body \<Rightarrow> [KeyedElement (elementKey i (Some k)) body]
      | UnkeyedElement body \<Rightarrow> [KeyedElement (elementKey i None) body]
      | OtherPart \<Rightarrow> []) @ keyedViews h (Suc i) vs"

section \<open>The recognized fields, and sample stores\<close>

text \<open>The fields that the spec (4.1) lists for a normalized configuration, in its order.\<close>

definition recognizedFields :: "string list" where
  "recognizedFields =
     [''locale'', ''timeZone'', ''formats'', ''textComponent'', ''messages'', ''defaultLocale'',
      ''defaultFormats'', ''onError'', ''wrapRichTextChunksInFragment'',
      ''defaultRichTextElements'']"

text \<open>
  Two sets of props that differ in a field the normalizer does not know (the children), and
  the array that is its value.
\<close>

definition h_children :: heap where
  "h_children =
     [Object [(''locale'', JStr ''fr''), (''children'', ArrRef 2)],
      Object [(''locale'', JStr ''fr''), (''messages'', Undefined)],
      Elements []]"

text \<open>A map of substitution values with one function, and that function.\<close>

definition h_values :: heap where
  "h_values = [Object [(''b'', FunRef 1), (''name'', JStr ''Eric'')], Closure Opaque]"

text \<open>
  Collaborators for the examples. The first platform accepts every argument and has data
  for no locale; its core formatter answers with one string, and its defaults hold a
  default locale. The second has number data only, its core formatter answers with an
  array of two parts, and \<^verbatim>\<open>React.Children.toArray\<close> answers with a new array.
\<close>

definition env_sample :: env where
  "env_sample =
     \<lparr>DEFAULT_INTL_CONFIG = [(''defaultLocale'', JStr ''en'')],
      canonicalizable = (\<lambda>v. True),
      numberFormatLocales = (\<lambda>v. []),
      dateTimeFormatLocales = (\<lambda>v. []),
      refToString = (\<lambda>v. ''[object Object]''),
      coreFormatMessage = (\<lambda>h config formatters descriptor vals. Inr (JStr ''Hello'', h)),
      Children_toArray = (\<lambda>h chunks. Inr (chunks, h))\<rparr>"

definition env_rich :: env where
  "env_rich =
     \<lparr>DEFAULT_INTL_CONFIG = [],
      canonicalizable = (\<lambda>v. True),
      numberFormatLocales = (\<lambda>v. [''en'']),
      dateTimeFormatLocales = (\<lambda>v. []),
      refToString = (\<lambda>v. ''[object Object]''),
      coreFormatMessage =
        (\<lambda>h config formatters descriptor vals.
           Inr (ArrRef (length h), h @ [Elements [JStr ''Hello, '', ObjRef 0]])),
      Children_toArray =
        (\<lambda>h chunks. Inr (ArrRef (length h), h @ [Elements [JStr ''Hello, '', ObjRef 1]]))\<rparr>"

text \<open>A platform that rejects every argument.\<close>

definition env_strict :: env where
  "env_strict =
     \<lparr>DEFAULT_INTL_CONFIG = [],
      canonicalizable = (\<lambda>v. False),
      numberFormatLocales = (\<lambda>v. []),
      dateTimeFormatLocales = (\<lambda>v. []),
      refToString = (\<lambda>v. ''[object Object]''),
      coreFormatMessage = (\<lambda>h config formatters descriptor vals. Inl TypeError),
      Children_toArray = (\<lambda>h chunks. Inr (chunks, h))\<rparr>"

text \<open>
  Configurations as \<^verbatim>\<open>createIntl\<close> may be given them: without a locale and without a
  default locale, but with a callback (0), and the same with the empty string as its
  locale (6); with a locale that is well-formed but has no data, with a callback (3) and
  without one (4); and without a locale but with a default locale (5). The callback is
  at 1 and a cache at 2.
\<close>

definition h_config :: heap where
  "h_config =
     [Object [(''locale'', Undefined), (''defaultLocale'', Undefined), (''onError'', FunRef 1)],
      Closure Opaque,
      Object [],
      Object [(''locale'', JStr ''xx-XX''), (''onError'', FunRef 1)],
      Object [(''locale'', JStr ''xx-XX''), (''defaultLocale'', JStr ''fr'')],
      Object [(''locale'', Undefined), (''defaultLocale'', JStr ''fr'')],
      Object [(''locale'', JStr []), (''defaultLocale'', Undefined), (''onError'', FunRef 1)]]"

text \<open>
  The props of two renders (0 and 1), which differ in the locale, the message catalog they
  share (2), the children (3), the normalized form of the first props (4) and a cache (5);
  and a state of the provider that holds the two last.
\<close>

definition h_props :: heap where
  "h_props =
     [Object [(''locale'', JStr ''fr''), (''messages'', ObjRef 2), (''children'', ArrRef 3)],
      Object [(''locale'', JStr ''de''), (''messages'', ObjRef 2)],
      Object [],
      Elements [],
      Object [(''locale'', JStr ''fr''), (''timeZone'', Undefined), (''formats'', Undefined),
              (''textComponent'', Undefined), (''messages'', ObjRef 2),
              (''defaultLocale'', Undefined), (''defaultFormats'', Undefined),
              (''onError'', Undefined), (''wrapRichTextChunksInFragment'', Undefined),
              (''defaultRichTextElements'', Undefined)],
      Object []]"

definition st_sample :: State where
  "st_sample = \<lparr>cache = ObjRef 5, intl = Undefined, prevConfig = 4\<rparr>"

text \<open>
  Defaults that hold an error handler, as the constant of the package does (at 1 in the
  store below), and two configurations that have no \<^verbatim>\<open>onError\<close> of their own: one without
  a locale (0) and one with a locale that has no data (3).
\<close>

definition env_defaults :: env where
  "env_defaults =
     \<lparr>DEFAULT_INTL_CONFIG = [(''defaultLocale'', JStr ''en''), (''onError'', FunRef 1)],
      canonicalizable = (\<lambda>v. True),
      numberFormatLocales = (\<lambda>v. []),
      dateTimeFormatLocales = (\<lambda>v. []),
      refToString = (\<lambda>v. ''[object Object]''),
      coreFormatMessage = (\<lambda>h config formatters descriptor vals. Inr (JStr ''Hello'', h)),
      Children_toArray = (\<lambda>h chunks. Inr (chunks, h))\<rparr>"

definition h_omitted :: heap where
  "h_omitted =
     [Object [(''locale'', Undefined), (''defaultLocale'', JStr ''fr'')],
      Closure Opaque,
      Object [],
      Object [(''locale'', JStr ''xx-XX''), (''defaultLocale'', JStr ''fr'')]]"

text \<open>
  A map of substitution values (0) and an element without a key (1); a core formatter that
  answers with an array of a string and that element; \<^verbatim>\<open>React.Children.toArray\<close> as
  written down above; and the store after \<^verbatim>\<open>formatMessage\<close> has run on them.
\<close>

definition h_rich :: heap where
  "h_rich = [Object [(''name'', JStr ''Eric'')], Element None (JStr ''b'')]"

definition h_rich_after :: heap where
  "h_rich_after =
     h_rich @ [Object [(''name'', JStr ''Eric'')],
               Elements [JStr ''Hello, '', ObjRef 1],
               Element (Some ''.1'') (JStr ''b''),
               Elements [JStr ''Hello, '', ObjRef 4]]"

definition env_react :: env where
  "env_react =
     \<lparr>DEFAULT_INTL_CONFIG = [],
      canonicalizable = (\<lambda>v. True),
      numberFormatLocales = (\<lambda>v. []),
      dateTimeFormatLocales = (\<lambda>v. []),
      refToString = (\<lambda>v. ''[object Object]''),
      coreFormatMessage =
        (\<lambda>h config formatters descriptor vals.
           Inr (ArrRef (length h), h @ [Elements [JStr ''Hello, '', ObjRef 1]])),
      Children_toArray =
        (\<lambda>h chunks. case React_Children_toArray h chunks of
                       Some res \<Rightarrow> Inr res
                     | None \<Rightarrow> Inl TypeError)\<rparr>"

section \<open>Facts about objects and the store\<close>

lemma getField_setField:
  "getField (setField k v ps) k' = (if k' = k then v else getField ps k')"
  by (induction ps) (auto simp: getField_def)

lemma keys_setField:
  "map fst (setField k v ps) = (if k \<in> fst ` set ps then map fst ps else map fst ps @ [k])"
  by (induction ps) force+

lemma getField_copyKeys:
  "getField (copyKeys src ks acc) k = (if k \<in> set ks then getField src k else getField acc k)"
  unfolding copyKeys_def
  by (induction ks arbitrary: acc) (auto simp: getField_setField)

lemma props_of_alloc_new: "props_of (h @ [Object ps]) (length h) = ps"
  by (simp add: props_of_def)

lemma props_of_alloc_old: "a < length h \<Longrightarrow> props_of (h @ cs) a = props_of h a"
  by (simp add: props_of_def nth_append)

lemma props_of_update_same: "a < length h \<Longrightarrow> props_of (h[a := Object ps]) a = ps"
  by (simp add: props_of_def)

lemma props_of_update_other: "a \<noteq> b \<Longrightarrow> props_of (h[b := c]) a = props_of h a"
  by (simp add: props_of_def)

lemma props_of_take:
  "take n h' = take n h \<Longrightarrow> a < n \<Longrightarrow> n \<le> length h \<Longrightarrow> n \<le> length h' \<Longrightarrow>
   props_of h' a = props_of h a"
proof -
  assume t: "take n h' = take n h" and a: "a < n" and l: "n \<le> length h" "n \<le> length h'"
  have "h' ! a = take n h' ! a" using a by simp
  also have "\<dots> = h ! a" using t a by simp
  finally show ?thesis using a l by (simp add: props_of_def)
qed

lemma props_of_dangling: "length h \<le> a \<Longrightarrow> props_of h a = []"
  by (simp add: props_of_def)

lemma take_all_length: "take (length h) cs = h \<Longrightarrow> length h \<le> length cs"
proof -
  assume "take (length h) cs = h"
  then have "length (take (length h) cs) = length h" by simp
  then show ?thesis by simp
qed

lemma frame_trans:
  assumes "take (length h) h1 = h" and "take (length h1) h2 = h1"
  shows "take (length h) h2 = h"
proof -
  have l: "length h \<le> length h1" using assms(1) by (rule take_all_length)
  have "take (length h) h2 = take (length h) (take (length h1) h2)"
    using l by (simp add: min_def)
  then show ?thesis using assms by simp
qed

lemma ownKeys_distinct: "distinct (ownKeys ps)"
  by (simp add: ownKeys_def)

lemma ownKeys_empty_props: "ownKeys [] = []"
  by (simp add: ownKeys_def)

lemma getField_absent: "k \<notin> fst ` set ps \<Longrightarrow> getField ps k = Undefined"
  using map_of_eq_None_iff [of ps k] by (simp add: getField_def)

lemma getField_spread:
  "getField (spread src acc) k = (if k \<in> fst ` set src then getField src k else getField acc k)"
  by (simp add: spread_def getField_copyKeys ownKeys_def)

lemma getField_fold_setField:
  "k \<notin> fst ` set kvs \<Longrightarrow> getField (fold (\<lambda>(k, v). setField k v) kvs base) k = getField base k"
  by (induction kvs arbitrary: base) (auto simp: getField_setField)

lemma getField_spread_empty: "getField (spread src []) k = getField src k"
  by (simp add: getField_spread getField_absent)

lemma getField_map_keys:
  "getField (map (\<lambda>k. (k, f k)) ks) k = (if k \<in> set ks then f k else Undefined)"
  by (induction ks) (auto simp: getField_def)

lemma keys_copyKeys: "fst ` set (copyKeys src ks acc) = fst ` set acc \<union> set ks"
proof (induction ks arbitrary: acc)
  case Nil
  then show ?case by (simp add: copyKeys_def)
next
  case (Cons k ks)
  have "fst ` set (setField k (getField src k) acc) = insert k (fst ` set acc)"
    using keys_setField [of k "getField src k" acc]
    by (metis (no_types, lifting) insert_absorb list.set_map set_append list.simps(15) Un_insert_right
        sup_bot.right_neutral empty_set)
  then show ?case using Cons.IH [of "setField k (getField src k) acc"]
    by (simp add: copyKeys_def)
qed

subsection \<open>The reduce loop of the key assignment\<close>

lemma reduceKeys_Cons:
  "reduceKeys h values acc (k # ks) =
     reduceKeys
       (let v = getField (case values of ObjRef a \<Rightarrow> props_of h a | _ \<Rightarrow> []) k in
        if isFormatXMLElementFn v
        then (h @ [Closure (KeyAssigning v)])
               [acc := Object (setField k (FunRef (length h)) (props_of (h @ [Closure (KeyAssigning v)]) acc))]
        else h[acc := Object (setField k v (props_of h acc))])
       values acc ks"
  by (simp add: Let_def assignUniqueKeysToParts_def alloc_def)

declare reduceKeys.simps(2) [simp del]

lemma length_reduceKeys: "length h \<le> length (reduceKeys h values acc ks)"
proof (induction ks arbitrary: h)
  case Nil
  then show ?case by simp
next
  case (Cons k ks)
  let ?h2 = "(let v = getField (case values of ObjRef a \<Rightarrow> props_of h a | _ \<Rightarrow> []) k in
        if isFormatXMLElementFn v
        then (h @ [Closure (KeyAssigning v)])
               [acc := Object (setField k (FunRef (length h)) (props_of (h @ [Closure (KeyAssigning v)]) acc))]
        else h[acc := Object (setField k v (props_of h acc))])"
  have "length h \<le> length ?h2" by (simp add: Let_def)
  also have "\<dots> \<le> length (reduceKeys ?h2 values acc ks)" by (rule Cons.IH)
  finally show ?case by (simp only: reduceKeys_Cons)
qed

lemma reduceKeys_other:
  "i < length h \<Longrightarrow> i \<noteq> acc \<Longrightarrow> reduceKeys h values acc ks ! i = h ! i"
proof (induction ks arbitrary: h)
  case Nil
  then show ?case by simp
next
  case (Cons k ks)
  let ?h2 = "(let v = getField (case values of ObjRef a \<Rightarrow> props_of h a | _ \<Rightarrow> []) k in
        if isFormatXMLElementFn v
        then (h @ [Closure (KeyAssigning v)])
               [acc := Object (setField k (FunRef (length h)) (props_of (h @ [Closure (KeyAssigning v)]) acc))]
        else h[acc := Object (setField k v (props_of h acc))])"
  have l: "i < length ?h2" using Cons.prems by (simp add: Let_def)
  have "reduceKeys ?h2 values acc ks ! i = ?h2 ! i" using l Cons.prems(2) by (rule Cons.IH)
  also have "\<dots> = h ! i" using Cons.prems by (simp add: Let_def nth_append)
  finally show ?case by (simp only: reduceKeys_Cons)
qed

lemma reduceKeys_frame:
  "n \<le> acc \<Longrightarrow> n \<le> length h \<Longrightarrow> take n (reduceKeys h values acc ks) = take n h"
proof (rule nth_equalityI)
  assume a: "n \<le> acc" "n \<le> length h"
  show "length (take n (reduceKeys h values acc ks)) = length (take n h)"
    using a length_reduceKeys [of h "values" acc ks] by simp
  fix i assume "i < length (take n (reduceKeys h values acc ks))"
  then have i: "i < n" by simp
  then show "take n (reduceKeys h values acc ks) ! i = take n h ! i"
    using a reduceKeys_other [of i h acc "values" ks] by simp
qed

lemma reduceKeys_result:
  "a < acc \<Longrightarrow> acc < length h \<Longrightarrow> distinct ks \<Longrightarrow> set ks \<inter> fst ` set (props_of h acc) = {} \<Longrightarrow>
   map fst (props_of (reduceKeys h (ObjRef a) acc ks) acc) = map fst (props_of h acc) @ ks \<and>
   (\<forall>k. k \<notin> set ks \<longrightarrow>
      getField (props_of (reduceKeys h (ObjRef a) acc ks) acc) k = getField (props_of h acc) k) \<and>
   (\<forall>k\<in>set ks. \<not> isFormatXMLElementFn (getField (props_of h a) k) \<longrightarrow>
      getField (props_of (reduceKeys h (ObjRef a) acc ks) acc) k = getField (props_of h a) k) \<and>
   (\<forall>k\<in>set ks. isFormatXMLElementFn (getField (props_of h a) k) \<longrightarrow>
      (\<exists>b. getField (props_of (reduceKeys h (ObjRef a) acc ks) acc) k = FunRef b \<and> length h \<le> b \<and>
           b < length (reduceKeys h (ObjRef a) acc ks) \<and>
           reduceKeys h (ObjRef a) acc ks ! b = Closure (KeyAssigning (getField (props_of h a) k))))"
proof (induction ks arbitrary: h)
  case Nil
  then show ?case by simp
next
  case (Cons k0 ks)
  define v where "v = getField (props_of h a) k0"
  define w where "w = (if isFormatXMLElementFn v then FunRef (length h) else v)"
  define h1 where "h1 = (if isFormatXMLElementFn v then h @ [Closure (KeyAssigning v)] else h)"
  define h2 where "h2 = h1[acc := Object (setField k0 w (props_of h1 acc))]"
  define h' where "h' = reduceKeys h2 (ObjRef a) acc ks"
  have step: "reduceKeys h (ObjRef a) acc (k0 # ks) = h'"
    by (simp add: reduceKeys_Cons Let_def v_def w_def h1_def h2_def h'_def)
  have len1: "length h \<le> length h1" by (simp add: h1_def)
  have len2: "length h2 = length h1" by (simp add: h2_def)
  have len': "length h2 \<le> length h'" unfolding h'_def by (rule length_reduceKeys)
  have acc1: "props_of h1 acc = props_of h acc"
    using Cons.prems(2) by (simp add: h1_def props_of_alloc_old)
  have a1: "props_of h1 a = props_of h a"
    using Cons.prems(1,2) by (simp add: h1_def props_of_alloc_old)
  have acc2: "props_of h2 acc = setField k0 w (props_of h acc)"
    using Cons.prems(2) len1 by (simp add: h2_def props_of_update_same acc1)
  have a2: "props_of h2 a = props_of h a"
    using Cons.prems(1) by (simp add: h2_def props_of_update_other a1)
  have k0_new: "k0 \<notin> fst ` set (props_of h acc)" using Cons.prems(4) by auto
  have keys2: "map fst (props_of h2 acc) = map fst (props_of h acc) @ [k0]"
    using k0_new by (simp add: acc2 keys_setField)
  have disj2: "set ks \<inter> fst ` set (props_of h2 acc) = {}"
  proof -
    have "fst ` set (props_of h2 acc) = set (map fst (props_of h2 acc))" by simp
    also have "\<dots> = insert k0 (fst ` set (props_of h acc))" by (simp only: keys2) simp
    finally show ?thesis using Cons.prems(3,4) by auto
  qed
  have IH: "map fst (props_of h' acc) = map fst (props_of h2 acc) @ ks \<and>
     (\<forall>k. k \<notin> set ks \<longrightarrow> getField (props_of h' acc) k = getField (props_of h2 acc) k) \<and>
     (\<forall>k\<in>set ks. \<not> isFormatXMLElementFn (getField (props_of h2 a) k) \<longrightarrow>
        getField (props_of h' acc) k = getField (props_of h2 a) k) \<and>
     (\<forall>k\<in>set ks. isFormatXMLElementFn (getField (props_of h2 a) k) \<longrightarrow>
        (\<exists>b. getField (props_of h' acc) k = FunRef b \<and> length h2 \<le> b \<and> b < length h' \<and>
             h' ! b = Closure (KeyAssigning (getField (props_of h2 a) k))))"
    unfolding h'_def
    using Cons.prems(1,2,3) len1 len2 disj2 by (intro Cons.IH) auto
  have at_k0: "getField (props_of h' acc) k0 = w"
    using IH Cons.prems(3) by (simp add: acc2 getField_setField)
  have c1: "map fst (props_of h' acc) = map fst (props_of h acc) @ k0 # ks"
    using IH by (simp add: keys2)
  have c2: "\<forall>k. k \<notin> set (k0 # ks) \<longrightarrow> getField (props_of h' acc) k = getField (props_of h acc) k"
    using IH by (simp add: acc2 getField_setField)
  have c3: "\<forall>k\<in>set (k0 # ks). \<not> isFormatXMLElementFn (getField (props_of h a) k) \<longrightarrow>
      getField (props_of h' acc) k = getField (props_of h a) k"
  proof (intro ballI impI)
    fix k assume k: "k \<in> set (k0 # ks)" and nf: "\<not> isFormatXMLElementFn (getField (props_of h a) k)"
    show "getField (props_of h' acc) k = getField (props_of h a) k"
    proof (cases "k = k0")
      case True
      then show ?thesis using nf at_k0 by (simp add: w_def v_def)
    next
      case False
      then show ?thesis using k nf IH by (simp add: a2)
    qed
  qed
  have c4: "\<forall>k\<in>set (k0 # ks). isFormatXMLElementFn (getField (props_of h a) k) \<longrightarrow>
      (\<exists>b. getField (props_of h' acc) k = FunRef b \<and> length h \<le> b \<and> b < length h' \<and>
           h' ! b = Closure (KeyAssigning (getField (props_of h a) k)))"
  proof (intro ballI impI)
    fix k assume k: "k \<in> set (k0 # ks)" and f: "isFormatXMLElementFn (getField (props_of h a) k)"
    show "\<exists>b. getField (props_of h' acc) k = FunRef b \<and> length h \<le> b \<and> b < length h' \<and>
           h' ! b = Closure (KeyAssigning (getField (props_of h a) k))"
    proof (cases "k = k0")
      case True
      then have fv: "isFormatXMLElementFn v" using f by (simp add: v_def)
      have b2: "length h < length h2" using fv by (simp add: h2_def h1_def)
      have "h' ! length h = h2 ! length h"
        unfolding h'_def using b2 Cons.prems(2) by (intro reduceKeys_other) auto
      also have "\<dots> = Closure (KeyAssigning v)"
        using fv Cons.prems(2) by (simp add: h2_def h1_def)
      finally have "h' ! length h = Closure (KeyAssigning (getField (props_of h a) k))"
        using True by (simp add: v_def)
      moreover have "getField (props_of h' acc) k = FunRef (length h)"
        using True at_k0 fv by (simp add: w_def)
      moreover have "length h < length h'" using b2 len' by simp
      ultimately show ?thesis by blast
    next
      case False
      then have "k \<in> set ks" using k by simp
      then obtain b where "getField (props_of h' acc) k = FunRef b" "length h2 \<le> b" "b < length h'"
          "h' ! b = Closure (KeyAssigning (getField (props_of h a) k))"
        using IH f by (auto simp: a2)
      then show ?thesis using len1 len2 by auto
    qed
  qed
  show ?case unfolding step using c1 c2 c3 c4 by blast
qed

lemma assign_frame:
  assumes "assignUniqueKeysToFormatXMLElementFnArgument h v = (r, h')"
  shows "take (length h) h' = h \<and> length h \<le> length h'"
proof (cases "truthy v")
  case False
  then show ?thesis using assms by (simp add: assignUniqueKeysToFormatXMLElementFnArgument_def)
next
  case True
  define ks where "ks = ownKeys (case v of ObjRef a \<Rightarrow> props_of h a | _ \<Rightarrow> [])"
  have h': "h' = reduceKeys (h @ [Object []]) v (length h) ks"
    using assms True
    by (simp add: assignUniqueKeysToFormatXMLElementFnArgument_def alloc_def ks_def)
  have "take (length h) h' = take (length h) (h @ [Object []])"
    unfolding h' by (rule reduceKeys_frame) simp_all
  moreover have "length (h @ [Object []]) \<le> length h'"
    unfolding h' by (rule length_reduceKeys)
  ultimately show ?thesis by simp
qed

subsection \<open>The normalizer\<close>

lemma processIntlConfig_eq:
  "processIntlConfig h config =
     (length h, h @ [Object (map (\<lambda>k. (k, getField (props_of h config) k)) recognizedFields)])"
  by (simp add: processIntlConfig_def alloc_def recognizedFields_def Let_def)

lemma processIntlConfig_props:
  "processIntlConfig h props = (config, h1) \<Longrightarrow>
   config = length h \<and> h1 = h @ [Object (map (\<lambda>k. (k, getField (props_of h props) k)) recognizedFields)]"
  by (simp add: processIntlConfig_eq)

lemma shallowEquals_same_props: "props_of h a = props_of h b \<Longrightarrow> shallowEquals h a b"
  by (simp add: shallowEquals_def Let_def list_all_iff)

subsection \<open>The stages of createIntl\<close>

lemma getField_restConfig:
  "getField (restConfig ps) k =
     (if k = ''defaultRichTextElements'' then Undefined else getField ps k)"
proof (cases "k \<in> fst ` set ps")
  case True
  then show ?thesis by (simp add: restConfig_def getField_copyKeys ownKeys_def) (simp add: getField_def)
next
  case False
  then show ?thesis
    by (simp add: restConfig_def getField_copyKeys ownKeys_def getField_absent)
qed

lemma keys_restConfig: "fst ` set (restConfig ps) = fst ` set ps - {''defaultRichTextElements''}"
  by (auto simp: restConfig_def keys_copyKeys ownKeys_def)

lemma resolved_own:
  "k \<in> fst ` set (props_of h arg) \<Longrightarrow> k \<noteq> ''defaultRichTextElements'' \<Longrightarrow>
   resolved env h arg k = getField (props_of h arg) k"
  by (simp add: resolved_def mergedConfig_def getField_spread keys_restConfig getField_restConfig)

lemma resolved_default:
  "k \<notin> fst ` set (props_of h arg) \<Longrightarrow>
   resolved env h arg k = getField (DEFAULT_INTL_CONFIG env) k"
  by (simp add: resolved_def mergedConfig_def getField_spread keys_restConfig getField_absent)

lemma resolved_processed:
  assumes "processIntlConfig h props = (config, h1)"
    and "k \<in> set recognizedFields" and "k \<noteq> ''defaultRichTextElements''"
  shows "resolved env h1 config k = getField (props_of h props) k"
proof -
  have p: "props_of h1 config = map (\<lambda>k. (k, getField (props_of h props) k)) recognizedFields"
    using processIntlConfig_props [OF assms(1)] by (simp add: props_of_alloc_new)
  have "k \<in> fst ` set (props_of h1 config)"
    using assms(2) unfolding p by (simp add: image_image)
  then have "resolved env h1 config k = getField (props_of h1 config) k"
    using assms(3) by (rule resolved_own)
  then show ?thesis using assms(2) by (simp add: p getField_map_keys)
qed

lemma createFormatters_frame:
  "\<exists>cs. snd (createFormatters h cch) = h @ cs"
  by (simp add: createFormatters_def alloc_def Let_def)

lemma intlShape_result:
  "\<exists>shape h'. intlShape h rc fm = (ObjRef shape, h') \<and>
     getField (props_of h' shape) ''locale'' = getField (props_of h rc) ''locale'' \<and>
     take (length h) h' = h"
proof -
  obtain shape h' where r: "intlShape h rc fm = (shape, h')" by (cases "intlShape h rc fm")
  have "\<exists>a kvs cs. shape = ObjRef a \<and> h' = cs @ [Object (fold (\<lambda>(k, v). setField k v) kvs (spread (props_of h rc) []))]
      \<and> a = length cs \<and> ''locale'' \<notin> fst ` set kvs \<and> take (length h) cs = h"
    using r unfolding intlShape_def bindFn_def alloc_def Let_def
    apply (simp only: split_conv prod.inject)
    apply (intro exI conjI)
       apply (erule conjE, erule sym)
      apply (erule conjE, erule sym)
      apply simp
     apply simp
    apply simp
    done
  then show ?thesis using r
    by (auto simp: props_of_alloc_new getField_fold_setField getField_spread_empty
        dest: take_all_length)
qed

lemma createIntl_via_checkLocale:
  "\<exists>rc h4 fm d. rc < length h4 \<and> length h \<le> rc \<and> take (length h) h4 = h \<and>
     props_of h4 rc =
       setField ''defaultRichTextElements'' d (mergedConfig env (restConfig (props_of h arg))) \<and>
     createIntl env h arg cch =
       (case checkLocale env h4 rc of
          Inl e \<Rightarrow> Inl e
        | Inr (h5, calls) \<Rightarrow>
            (let (shape, h6) = intlShape h5 rc fm in Inr (shape, h6, calls)))"
proof -
  define rest where "rest = restConfig (props_of h arg)"
  define h1 where "h1 = h @ [Object rest]"
  obtain fm h2 where f: "createFormatters h1 cch = (fm, h2)" by (cases "createFormatters h1 cch")
  obtain cs where h2: "h2 = h1 @ cs" using createFormatters_frame [of h1 cch] f by auto
  obtain d h3 where a: "assignUniqueKeysToFormatXMLElementFnArgument h2
      (getField (props_of h arg) ''defaultRichTextElements'') = (d, h3)"
    by (cases "assignUniqueKeysToFormatXMLElementFnArgument h2
      (getField (props_of h arg) ''defaultRichTextElements'')")
  have frame: "take (length h2) h3 = h2" "length h2 \<le> length h3"
    using assign_frame [OF a] by simp_all
  have "props_of h3 (length h) = props_of h2 (length h)"
    using frame by (intro props_of_take [of "length h2"]) (simp_all add: h2 h1_def)
  also have "\<dots> = rest" by (simp add: h2 h1_def props_of_def nth_append)
  finally have cfg: "props_of h3 (length h) = rest" .
  define rcp where "rcp = setField ''defaultRichTextElements'' d (mergedConfig env rest)"
  have "createIntl env h arg cch =
       (case checkLocale env (h3 @ [Object rcp]) (length h3) of
          Inl e \<Rightarrow> Inl e
        | Inr (h5, calls) \<Rightarrow>
            (let (shape, h6) = intlShape h5 (length h3) fm in Inr (shape, h6, calls)))"
    unfolding createIntl_def
    by (simp add: alloc_def Let_def rest_def [symmetric] h1_def [symmetric] f a cfg rcp_def)
  moreover have "props_of (h3 @ [Object rcp]) (length h3) = rcp" by (rule props_of_alloc_new)
  moreover have "length h \<le> length h3" using frame by (simp add: h2 h1_def)
  moreover have "take (length h) (h3 @ [Object rcp]) = h"
  proof -
    have "take (length h) h3 = take (length h) (take (length h2) h3)"
      by (simp add: h2 h1_def min_def)
    also have "\<dots> = h" by (simp add: frame) (simp add: h2 h1_def)
    finally show ?thesis using \<open>length h \<le> length h3\<close> by simp
  qed
  ultimately show ?thesis unfolding rcp_def rest_def
    by (intro exI [of _ "length h3"] exI [of _ "h3 @ [Object rcp]"] exI [of _ fm] exI [of _ d])
      (simp add: rcp_def rest_def)
qed

lemma createIntl_returns:
  assumes "\<And>rc h4. rc < length h4 \<Longrightarrow>
      (\<And>k. k \<noteq> ''defaultRichTextElements'' \<Longrightarrow> getField (props_of h4 rc) k = resolved env h arg k) \<Longrightarrow>
      \<exists>h5. checkLocale env h4 rc = Inr (h5, calls) \<and> getField (props_of h5 rc) ''locale'' = loc"
  shows "\<exists>shape h'. createIntl env h arg cch = Inr (ObjRef shape, h', calls) \<and>
      getField (props_of h' shape) ''locale'' = loc"
proof -
  obtain rc h4 fm d where rc: "rc < length h4"
    and p: "props_of h4 rc =
       setField ''defaultRichTextElements'' d (mergedConfig env (restConfig (props_of h arg)))"
    and c: "createIntl env h arg cch =
       (case checkLocale env h4 rc of
          Inl e \<Rightarrow> Inl e
        | Inr (h5, calls) \<Rightarrow>
            (let (shape, h6) = intlShape h5 rc fm in Inr (shape, h6, calls)))"
    using createIntl_via_checkLocale [where h = h and env = env and arg = arg and cch = cch] by blast
  have "\<And>k. k \<noteq> ''defaultRichTextElements'' \<Longrightarrow> getField (props_of h4 rc) k = resolved env h arg k"
    by (simp add: p getField_setField resolved_def)
  then obtain h5 where ch: "checkLocale env h4 rc = Inr (h5, calls)"
    and loc: "getField (props_of h5 rc) ''locale'' = loc"
    using assms [OF rc] by blast
  obtain shape h6 where "intlShape h5 rc fm = (ObjRef shape, h6)"
    "getField (props_of h6 shape) ''locale'' = getField (props_of h5 rc) ''locale''"
    using intlShape_result [of h5 rc fm] by blast
  then show ?thesis using c ch loc by simp
qed

lemma createIntl_throws:
  assumes "\<And>rc h4. rc < length h4 \<Longrightarrow>
      (\<And>k. k \<noteq> ''defaultRichTextElements'' \<Longrightarrow> getField (props_of h4 rc) k = resolved env h arg k) \<Longrightarrow>
      checkLocale env h4 rc = Inl e"
  shows "createIntl env h arg cch = Inl e"
proof -
  obtain rc h4 fm d where rc: "rc < length h4"
    and p: "props_of h4 rc =
       setField ''defaultRichTextElements'' d (mergedConfig env (restConfig (props_of h arg)))"
    and c: "createIntl env h arg cch =
       (case checkLocale env h4 rc of
          Inl e \<Rightarrow> Inl e
        | Inr (h5, calls) \<Rightarrow>
            (let (shape, h6) = intlShape h5 rc fm in Inr (shape, h6, calls)))"
    using createIntl_via_checkLocale [where h = h and env = env and arg = arg and cch = cch] by blast
  have "\<And>k. k \<noteq> ''defaultRichTextElements'' \<Longrightarrow> getField (props_of h4 rc) k = resolved env h arg k"
    by (simp add: p getField_setField resolved_def)
  then have "checkLocale env h4 rc = Inl e" using assms [OF rc] by blast
  then show ?thesis using c by simp
qed

lemma checkLocale_frame:
  "checkLocale env h rc = Inr (h5, calls) \<Longrightarrow> length h5 = length h \<and> take rc h5 = take rc h"
  by (auto simp: checkLocale_def Let_def split: if_splits sum.splits)

lemma createIntl_frame:
  assumes "createIntl env h arg cch = Inr (shape, h', calls)"
  shows "take (length h) h' = h \<and> length h \<le> length h'"
proof -
  obtain rc h4 fm where rc: "rc < length h4" "length h \<le> rc" "take (length h) h4 = h"
    and c: "createIntl env h arg cch =
       (case checkLocale env h4 rc of
          Inl e \<Rightarrow> Inl e
        | Inr (h5, calls) \<Rightarrow>
            (let (shape, h6) = intlShape h5 rc fm in Inr (shape, h6, calls)))"
    using createIntl_via_checkLocale [where h = h and env = env and arg = arg and cch = cch] by blast
  obtain h5 where ch: "checkLocale env h4 rc = Inr (h5, calls)"
    and sh: "intlShape h5 rc fm = (shape, h')"
    using assms c by (auto split: sum.splits prod.splits)
  have l5: "length h5 = length h4" and t5: "take rc h5 = take rc h4"
    using checkLocale_frame [OF ch] by simp_all
  have t6: "take (length h5) h' = h5"
    using intlShape_result [of h5 rc fm] sh by auto
  then have l6: "length h5 \<le> length h'"
    by (rule take_all_length)
  have "take (length h) h' = take (length h) (take (length h5) h')"
    using rc l5 by (simp add: min_def)
  also have "\<dots> = take (length h) (take rc h5)" using rc by (simp add: t6 min_def)
  also have "\<dots> = h" using rc by (simp add: t5 min_def)
  finally show ?thesis using rc l5 l6 by simp
qed

lemma checkLocale_calls:
  "checkLocale env h rc = Inr (h5, calls) \<Longrightarrow> length calls \<le> 1"
  by (cases "getField (props_of h rc) ''onError''")
    (auto simp: checkLocale_def Let_def split: if_splits sum.splits)

lemma createIntl_calls:
  assumes "createIntl env h arg cch = Inr (shape, h', calls)"
  shows "length calls \<le> 1"
proof -
  obtain rc h4 fm where
    c: "createIntl env h arg cch =
       (case checkLocale env h4 rc of
          Inl e \<Rightarrow> Inl e
        | Inr (h5, calls) \<Rightarrow>
            (let (shape, h6) = intlShape h5 rc fm in Inr (shape, h6, calls)))"
    using createIntl_via_checkLocale [where h = h and env = env and arg = arg and cch = cch]
    by blast
  obtain h5 where "checkLocale env h4 rc = Inr (h5, calls)"
    using assms c by (auto split: sum.splits prod.splits)
  then show ?thesis by (rule checkLocale_calls)
qed

lemma checkLocale_fallback:
  assumes "rc < length h" and "\<not> truthy (getField (props_of h rc) ''locale'')"
    and "\<not> truthy (getField (props_of h rc) ''onError'') \<and> calls = [] \<or>
         getField (props_of h rc) ''onError'' = FunRef f \<and>
         calls = [(f, InvalidConfigError
                        (invalidConfigMessage env (getField (props_of h rc) ''defaultLocale'')))]"
  shows "\<exists>h5. checkLocale env h rc = Inr (h5, calls) \<and>
     getField (props_of h5 rc) ''locale'' =
       (if truthy (getField (props_of h rc) ''defaultLocale'')
        then getField (props_of h rc) ''defaultLocale'' else JStr ''en'')"
  using assms
  by (auto simp: checkLocale_def Let_def props_of_update_same getField_setField)

lemma checkLocale_keeps:
  assumes "truthy (getField (props_of h rc) ''locale'')"
    and "canonicalizable env (getField (props_of h rc) ''locale'')"
    and "\<not> truthy (getField (props_of h rc) ''onError'') \<and> calls = [] \<or>
         getField (props_of h rc) ''onError'' = FunRef f \<and>
         calls =
           (if numberFormatLocales env (getField (props_of h rc) ''locale'') = []
            then [(f, MissingDataError (missingNumberFormatMessage env
                        (getField (props_of h rc) ''locale'')
                        (getField (props_of h rc) ''defaultLocale'')))]
            else if dateTimeFormatLocales env (getField (props_of h rc) ''locale'') = []
            then [(f, MissingDataError (missingDateTimeFormatMessage env
                        (getField (props_of h rc) ''locale'')
                        (getField (props_of h rc) ''defaultLocale'')))]
            else [])"
  shows "\<exists>h5. checkLocale env h rc = Inr (h5, calls) \<and>
     getField (props_of h5 rc) ''locale'' = getField (props_of h rc) ''locale''"
  using assms
  by (auto simp: checkLocale_def Let_def Intl_NumberFormat_supportedLocalesOf_def
      Intl_DateTimeFormat_supportedLocalesOf_def)

lemma checkLocale_rejects:
  assumes "truthy (getField (props_of h rc) ''locale'')"
    and "\<not> canonicalizable env (getField (props_of h rc) ''locale'')"
  shows "checkLocale env h rc = Inl RangeError"
  using assms
  by (simp add: checkLocale_def Let_def Intl_NumberFormat_supportedLocalesOf_def)

lemma createIntl_fallback:
  assumes "\<not> truthy (resolved env h arg ''locale'')"
    and "\<not> truthy (resolved env h arg ''onError'') \<and> calls = [] \<or>
         resolved env h arg ''onError'' = FunRef f \<and>
         calls = [(f, InvalidConfigError
                        (invalidConfigMessage env (resolved env h arg ''defaultLocale'')))]"
  shows "\<exists>shape h'. createIntl env h arg cch = Inr (ObjRef shape, h', calls) \<and>
     getField (props_of h' shape) ''locale'' =
       (if truthy (resolved env h arg ''defaultLocale'')
        then resolved env h arg ''defaultLocale'' else JStr ''en'')"
proof (rule createIntl_returns)
  fix rc h4
  assume rc: "rc < length h4"
    and r: "\<And>k. k \<noteq> ''defaultRichTextElements'' \<Longrightarrow> getField (props_of h4 rc) k = resolved env h arg k"
  have eqs: "getField (props_of h4 rc) ''locale'' = resolved env h arg ''locale''"
    "getField (props_of h4 rc) ''defaultLocale'' = resolved env h arg ''defaultLocale''"
    "getField (props_of h4 rc) ''onError'' = resolved env h arg ''onError''"
    by (simp_all add: r)
  show "\<exists>h5. checkLocale env h4 rc = Inr (h5, calls) \<and>
      getField (props_of h5 rc) ''locale'' =
        (if truthy (resolved env h arg ''defaultLocale'')
         then resolved env h arg ''defaultLocale'' else JStr ''en'')"
    using checkLocale_fallback [of rc h4 calls f env] rc assms unfolding eqs by blast
qed

lemma createIntl_keeps:
  assumes "truthy (resolved env h arg ''locale'')"
    and "canonicalizable env (resolved env h arg ''locale'')"
    and "\<not> truthy (resolved env h arg ''onError'') \<and> calls = [] \<or>
         resolved env h arg ''onError'' = FunRef f \<and>
         calls =
           (if numberFormatLocales env (resolved env h arg ''locale'') = []
            then [(f, MissingDataError (missingNumberFormatMessage env
                        (resolved env h arg ''locale'') (resolved env h arg ''defaultLocale'')))]
            else if dateTimeFormatLocales env (resolved env h arg ''locale'') = []
            then [(f, MissingDataError (missingDateTimeFormatMessage env
                        (resolved env h arg ''locale'') (resolved env h arg ''defaultLocale'')))]
            else [])"
  shows "\<exists>shape h'. createIntl env h arg cch = Inr (ObjRef shape, h', calls) \<and>
     getField (props_of h' shape) ''locale'' = resolved env h arg ''locale''"
proof (rule createIntl_returns)
  fix rc h4
  assume rc: "rc < length h4"
    and r: "\<And>k. k \<noteq> ''defaultRichTextElements'' \<Longrightarrow> getField (props_of h4 rc) k = resolved env h arg k"
  have eqs: "getField (props_of h4 rc) ''locale'' = resolved env h arg ''locale''"
    "getField (props_of h4 rc) ''defaultLocale'' = resolved env h arg ''defaultLocale''"
    "getField (props_of h4 rc) ''onError'' = resolved env h arg ''onError''"
    by (simp_all add: r)
  show "\<exists>h5. checkLocale env h4 rc = Inr (h5, calls) \<and>
      getField (props_of h5 rc) ''locale'' = resolved env h arg ''locale''"
    using checkLocale_keeps [of h4 rc env calls f] assms unfolding eqs by blast
qed

lemma createIntl_rejects:
  assumes "truthy (resolved env h arg ''locale'')"
    and "\<not> canonicalizable env (resolved env h arg ''locale'')"
  shows "createIntl env h arg cch = Inl RangeError"
proof (rule createIntl_throws)
  fix rc h4
  assume "\<And>k. k \<noteq> ''defaultRichTextElements'' \<Longrightarrow> getField (props_of h4 rc) k = resolved env h arg k"
  then have "getField (props_of h4 rc) ''locale'' = resolved env h arg ''locale''" by simp
  then show "checkLocale env h4 rc = Inl RangeError"
    using checkLocale_rejects [of h4 rc env] assms by simp
qed

lemma createIntl_typed_fallback:
  assumes "\<not> truthy (resolved env h arg ''onError'') \<or> (\<exists>f. resolved env h arg ''onError'' = FunRef f)"
    and l: "\<not> truthy (resolved env h arg ''locale'')"
  shows "\<exists>shape h' calls. createIntl env h arg cch = Inr (ObjRef shape, h', calls) \<and>
           (\<not> truthy (resolved env h arg ''onError'') \<longrightarrow> calls = []) \<and>
           getField (props_of h' shape) ''locale'' =
             (if truthy (resolved env h arg ''defaultLocale'')
              then resolved env h arg ''defaultLocale'' else JStr ''en'')"
proof (cases "truthy (resolved env h arg ''onError'')")
  case False
  then show ?thesis using createIntl_fallback [of env h arg "[]" _ cch] l by auto
next
  case True
  then obtain f where f: "resolved env h arg ''onError'' = FunRef f" using assms by auto
  show ?thesis
    using createIntl_fallback [of env h arg
        "[(f, InvalidConfigError (invalidConfigMessage env (resolved env h arg ''defaultLocale'')))]"
        f cch] l f
    by auto
qed

lemma createIntl_typed_keeps:
  assumes "\<not> truthy (resolved env h arg ''onError'') \<or> (\<exists>f. resolved env h arg ''onError'' = FunRef f)"
    and l: "truthy (resolved env h arg ''locale'')"
    and c: "canonicalizable env (resolved env h arg ''locale'')"
  shows "\<exists>shape h' calls. createIntl env h arg cch = Inr (ObjRef shape, h', calls) \<and>
           (\<not> truthy (resolved env h arg ''onError'') \<longrightarrow> calls = []) \<and>
           getField (props_of h' shape) ''locale'' = resolved env h arg ''locale''"
proof (cases "truthy (resolved env h arg ''onError'')")
  case False
  then show ?thesis using createIntl_keeps [of env h arg "[]" _ cch] l c by auto
next
  case True
  let ?L = "resolved env h arg ''locale''"
  let ?D = "resolved env h arg ''defaultLocale''"
  obtain f where f: "resolved env h arg ''onError'' = FunRef f" using True assms by auto
  define calls where "calls =
         (if numberFormatLocales env ?L = []
          then [(f, MissingDataError (missingNumberFormatMessage env ?L ?D))]
          else if dateTimeFormatLocales env ?L = []
          then [(f, MissingDataError (missingDateTimeFormatMessage env ?L ?D))]
          else [])"
  have "\<exists>shape h'. createIntl env h arg cch = Inr (ObjRef shape, h', calls) \<and>
      getField (props_of h' shape) ''locale'' = ?L"
    using l c f by (intro createIntl_keeps [where f = f]) (simp_all add: calls_def)
  then show ?thesis using True by auto
qed

lemma createIntl_total:
  assumes "\<not> truthy (resolved env h arg ''onError'') \<or> (\<exists>f. resolved env h arg ''onError'' = FunRef f)"
    and "truthy (resolved env h arg ''locale'') \<longrightarrow> canonicalizable env (resolved env h arg ''locale'')"
  shows "\<exists>shape h' calls. createIntl env h arg cch = Inr (ObjRef shape, h', calls)"
proof (cases "truthy (resolved env h arg ''locale'')")
  case True
  then show ?thesis using createIntl_typed_keeps [OF assms(1) True, of cch] assms(2) by blast
next
  case False
  then show ?thesis using createIntl_typed_fallback [OF assms(1) False, of cch] by blast
qed

lemma nth_of_take: "take n h' = h \<Longrightarrow> b < length h \<Longrightarrow> h' ! b = h ! b"
proof -
  assume t: "take n h' = h" and b: "b < length h"
  then have "b < n" by auto
  then have "take n h' ! b = h' ! b" by simp
  then show ?thesis using t by simp
qed

lemma isAccessor_frame:
  "isAccessor h v kind c \<Longrightarrow> take (length h) h' = h \<Longrightarrow> isAccessor h' v kind c"
proof (cases v)
  case (FunRef b)
  assume a: "isAccessor h v kind c" and t: "take (length h) h' = h"
  have l: "length h \<le> length h'" using t by (rule take_all_length)
  have "h' ! b = h ! b" using a t FunRef by (intro nth_of_take [of "length h"]) simp_all
  then show ?thesis using a l FunRef by simp
qed simp_all

lemma isBound_frame:
  "isBound h v f args \<Longrightarrow> take (length h) h' = h \<Longrightarrow> isBound h' v f args"
proof (cases v)
  case (FunRef b)
  assume a: "isBound h v f args" and t: "take (length h) h' = h"
  have l: "length h \<le> length h'" using t by (rule take_all_length)
  have "h' ! b = h ! b" using a t FunRef by (intro nth_of_take [of "length h"]) simp_all
  then show ?thesis using a l FunRef by simp
qed simp_all

lemma props_of_frame:
  "take (length h) h' = h \<Longrightarrow> a < length h \<Longrightarrow> props_of h' a = props_of h a"
proof -
  assume t: "take (length h) h' = h" and a: "a < length h"
  have "length h \<le> length h'" using t by (rule take_all_length)
  then show ?thesis using t a by (intro props_of_take [of "length h"]) simp_all
qed

lemma hasFormatters_frame:
  assumes "hasFormatters h fm c" and "fm < length h" and "take (length h) h' = h"
  shows "hasFormatters h' fm c"
  using assms
  by (auto simp: hasFormatters_def list_all_iff props_of_frame intro: isAccessor_frame)

lemma upt_six: "[n ..< n + 6] = [n, n + 1, n + 2, n + 3, n + 4, n + 5]"
  by (simp add: upt_rec [of n] upt_rec [of "Suc n"] upt_rec [of "Suc (Suc n)"]
      upt_rec [of "Suc (Suc (Suc n))"] upt_rec [of "Suc (Suc (Suc (Suc n)))"]
      upt_rec [of "Suc (Suc (Suc (Suc (Suc n))))"])

lemma createFormatters_result:
  assumes "createFormatters h c = (fm, h2)"
  shows "fm < length h2 \<and> length h \<le> fm \<and> take (length h) h2 = h \<and> hasFormatters h2 fm c"
  using assms
  by (auto simp: createFormatters_def alloc_def Let_def formatterKinds_def upt_six
      hasFormatters_def props_of_def getField_def nth_append)

lemma intlShape_usable:
  assumes rc: "rc < length h" and fm: "fm < length h" and hf: "hasFormatters h fm c"
  shows "\<exists>shape h'. intlShape h rc fm = (ObjRef shape, h') \<and> usableShape h' shape rc fm c \<and>
     (\<forall>k. k \<notin> set shapeNames \<longrightarrow> getField (props_of h' shape) k = getField (props_of h rc) k) \<and>
     take (length h) h' = h \<and> props_of h' rc = props_of h rc"
proof -
  define fs where "fs = props_of h fm"
  define cs where "cs =
    [Closure (Bound ''formatNumber'' [ObjRef rc, getField fs ''getNumberFormat'']),
     Closure (Bound ''formatNumberToParts'' [ObjRef rc, getField fs ''getNumberFormat'']),
     Closure (Bound ''formatRelativeTime'' [ObjRef rc, getField fs ''getRelativeTimeFormat'']),
     Closure (Bound ''formatDate'' [ObjRef rc, getField fs ''getDateTimeFormat'']),
     Closure (Bound ''formatDateToParts'' [ObjRef rc, getField fs ''getDateTimeFormat'']),
     Closure (Bound ''formatTime'' [ObjRef rc, getField fs ''getDateTimeFormat'']),
     Closure (Bound ''formatTimeToParts'' [ObjRef rc, getField fs ''getDateTimeFormat'']),
     Closure (Bound ''formatPlural'' [ObjRef rc, getField fs ''getPluralRules'']),
     Closure (Bound ''formatMessage'' [ObjRef rc, ObjRef fm]),
     Closure (Bound ''formatList'' [ObjRef rc, getField fs ''getListFormat'']),
     Closure (Bound ''formatDisplayName'' [ObjRef rc, getField fs ''getDisplayNames''])]"
  define ps where "ps = fold (\<lambda>(k, v). setField k v)
     [(''formatters'', ObjRef fm),
      (''formatNumber'', FunRef (length h)),
      (''formatNumberToParts'', FunRef (length h + 1)),
      (''formatRelativeTime'', FunRef (length h + 2)),
      (''formatDate'', FunRef (length h + 3)),
      (''formatDateToParts'', FunRef (length h + 4)),
      (''formatTime'', FunRef (length h + 5)),
      (''formatTimeToParts'', FunRef (length h + 6)),
      (''formatPlural'', FunRef (length h + 7)),
      (''formatMessage'', FunRef (length h + 8)),
      (''formatList'', FunRef (length h + 9)),
      (''formatDisplayName'', FunRef (length h + 10))] (spread (props_of h rc) [])"
  define h' where "h' = h @ cs @ [Object ps]"
  have run: "intlShape h rc fm = (ObjRef (length h + 11), h')"
    by (simp add: intlShape_def bindFn_def alloc_def Let_def h'_def cs_def ps_def fs_def
        eval_nat_numeral)
  have lcs: "length cs = 11" by (simp add: cs_def)
  have frame: "take (length h) h' = h" by (simp add: h'_def)
  have at_shape: "props_of h' (length h + 11) = ps"
    by (simp add: h'_def props_of_def nth_append lcs)
  have at_rc: "props_of h' rc = props_of h rc" using frame rc by (rule props_of_frame)
  have at_fm: "props_of h' fm = fs" unfolding fs_def using frame fm by (rule props_of_frame)
  have hf': "hasFormatters h' fm c" using hf fm frame by (rule hasFormatters_frame)
  have other: "getField ps k = getField (props_of h rc) k" if "k \<notin> set shapeNames" for k
    using that
    by (simp add: ps_def shapeNames_def formattingFunctions_def getField_setField
        getField_spread_empty)
  have loc: "getField ps ''locale'' = getField (props_of h rc) ''locale''"
    by (rule other) (simp add: shapeNames_def formattingFunctions_def)
  have fmt: "getField ps ''formatters'' = ObjRef fm"
    by (simp add: ps_def getField_setField)
  have msg: "isBound h' (getField ps ''formatMessage'') ''formatMessage'' [ObjRef rc, ObjRef fm]"
    by (simp add: ps_def getField_setField h'_def cs_def nth_append)
  have fns: "list_all (\<lambda>(f, kind). isBound h' (getField ps f) f [ObjRef rc, getField fs kind])
        formattingFunctions"
    by (simp add: formattingFunctions_def ps_def getField_setField h'_def cs_def nth_append)
  have "usableShape h' (length h + 11) rc fm c"
    unfolding usableShape_def at_shape at_rc at_fm
    using fmt hf' fns msg loc by simp
  then show ?thesis using run frame at_rc other at_shape by auto
qed

lemma checkLocale_fields:
  assumes "checkLocale env h rc = Inr (h5, calls)" and "rc < length h"
  shows "length h5 = length h \<and> take rc h5 = take rc h \<and>
     (\<forall>k. k \<noteq> ''locale'' \<longrightarrow> getField (props_of h5 rc) k = getField (props_of h rc) k)"
  using assms
  by (auto simp: checkLocale_def Let_def props_of_update_same getField_setField
      split: if_splits sum.splits)

lemma createIntl_shape:
  assumes run: "createIntl env h arg cch = Inr (s, h', calls)"
  shows "\<exists>shape rc fm. s = ObjRef shape \<and> usableShape h' shape rc fm cch \<and>
     (\<forall>k. k \<notin> set shapeNames \<longrightarrow> getField (props_of h' shape) k = getField (props_of h' rc) k) \<and>
     (\<forall>k. k \<noteq> ''locale'' \<and> k \<noteq> ''defaultRichTextElements'' \<longrightarrow>
        getField (props_of h' rc) k = resolved env h arg k)"
proof -
  define rest where "rest = restConfig (props_of h arg)"
  define h1 where "h1 = h @ [Object rest]"
  obtain fm h2 where f: "createFormatters h1 cch = (fm, h2)" by (cases "createFormatters h1 cch")
  have fmr: "fm < length h2" "take (length h1) h2 = h1" "hasFormatters h2 fm cch"
    using createFormatters_result [OF f] by simp_all
  obtain d h3 where a: "assignUniqueKeysToFormatXMLElementFnArgument h2
      (getField (props_of h arg) ''defaultRichTextElements'') = (d, h3)"
    by (cases "assignUniqueKeysToFormatXMLElementFnArgument h2
      (getField (props_of h arg) ''defaultRichTextElements'')")
  have frame: "take (length h2) h3 = h2" "length h2 \<le> length h3"
    using assign_frame [OF a] by simp_all
  have l12: "length h1 \<le> length h2" using fmr(2) by (rule take_all_length)
  have "props_of h3 (length h) = props_of h2 (length h)"
    using frame(1) l12 by (intro props_of_frame) (simp_all add: h1_def)
  also have "\<dots> = props_of h1 (length h)"
    using fmr(2) by (intro props_of_frame) (simp_all add: h1_def)
  also have "\<dots> = rest" by (simp add: h1_def props_of_alloc_new)
  finally have cfg: "props_of h3 (length h) = rest" .
  have hf3: "hasFormatters h3 fm cch" using fmr(3) fmr(1) frame(1) by (rule hasFormatters_frame)
  have fm3: "fm < length h3" using fmr(1) frame(2) by simp
  define rcp where "rcp = setField ''defaultRichTextElements'' d (mergedConfig env rest)"
  define h4 where "h4 = h3 @ [Object rcp]"
  have unfolded: "createIntl env h arg cch =
       (case checkLocale env h4 (length h3) of
          Inl e \<Rightarrow> Inl e
        | Inr (h5, calls) \<Rightarrow>
            (let (shape, h6) = intlShape h5 (length h3) fm in Inr (shape, h6, calls)))"
    unfolding createIntl_def
    by (simp add: alloc_def Let_def rest_def [symmetric] h1_def [symmetric] f a cfg rcp_def h4_def)
  obtain h5 where ch: "checkLocale env h4 (length h3) = Inr (h5, calls)"
    and sh: "intlShape h5 (length h3) fm = (s, h')"
    using run unfolded by (auto split: sum.splits prod.splits)
  have rc4: "length h3 < length h4" by (simp add: h4_def)
  have c5: "length h5 = length h4" "take (length h3) h5 = take (length h3) h4"
    and fields: "\<And>k. k \<noteq> ''locale'' \<Longrightarrow>
      getField (props_of h5 (length h3)) k = getField (props_of h4 (length h3)) k"
    using checkLocale_fields [OF ch rc4] by simp_all
  have t5: "take (length h3) h5 = h3" using c5(2) by (simp add: h4_def)
  have hf5: "hasFormatters h5 fm cch" using hf3 fm3 t5 by (rule hasFormatters_frame)
  have rc5: "length h3 < length h5" "fm < length h5" using c5(1) rc4 fm3 by simp_all
  obtain shape where s: "s = ObjRef shape"
    and us: "usableShape h' shape (length h3) fm cch"
    and other: "\<And>k. k \<notin> set shapeNames \<Longrightarrow>
      getField (props_of h' shape) k = getField (props_of h5 (length h3)) k"
    and same: "props_of h' (length h3) = props_of h5 (length h3)"
    using intlShape_usable [OF rc5(1) rc5(2) hf5] sh by auto
  have at4: "props_of h4 (length h3) = rcp" by (simp add: h4_def props_of_alloc_new)
  have res: "getField (props_of h' (length h3)) k = resolved env h arg k"
    if k: "k \<noteq> ''locale''" "k \<noteq> ''defaultRichTextElements''" for k
  proof -
    have "getField (props_of h' (length h3)) k = getField (props_of h4 (length h3)) k"
      unfolding same using k(1) by (rule fields)
    also have "\<dots> = getField (mergedConfig env rest) k"
      using k(2) by (simp add: at4 rcp_def getField_setField)
    finally show ?thesis by (simp add: resolved_def rest_def)
  qed
  have other': "\<forall>k. k \<notin> set shapeNames \<longrightarrow>
      getField (props_of h' shape) k = getField (props_of h' (length h3)) k"
    unfolding same using other by blast
  show ?thesis
    using s us other' res by blast
qed

lemma createIntl_fallback_full:
  assumes typed: "\<not> truthy (resolved env h arg ''onError'') \<or>
      (\<exists>f. resolved env h arg ''onError'' = FunRef f)"
    and l: "\<not> truthy (resolved env h arg ''locale'')"
  shows "\<exists>shape h' calls rc fm.
     createIntl env h arg cch = Inr (ObjRef shape, h', calls) \<and>
     usableShape h' shape rc fm cch \<and>
     (\<forall>k. k \<notin> set shapeNames \<longrightarrow> getField (props_of h' shape) k = getField (props_of h' rc) k) \<and>
     (\<forall>k. k \<noteq> ''locale'' \<and> k \<noteq> ''defaultRichTextElements'' \<longrightarrow>
        getField (props_of h' rc) k = resolved env h arg k) \<and>
     (\<not> truthy (resolved env h arg ''onError'') \<longrightarrow> calls = []) \<and>
     (\<forall>f. resolved env h arg ''onError'' = FunRef f \<longrightarrow>
        calls = [(f, InvalidConfigError
                       (invalidConfigMessage env (resolved env h arg ''defaultLocale'')))]) \<and>
     getField (props_of h' shape) ''locale'' =
       (if truthy (resolved env h arg ''defaultLocale'')
        then resolved env h arg ''defaultLocale'' else JStr ''en'')"
proof -
  let ?E = "resolved env h arg ''onError''"
  let ?D = "resolved env h arg ''defaultLocale''"
  define calls where "calls =
    (case ?E of FunRef f \<Rightarrow> [(f, InvalidConfigError (invalidConfigMessage env ?D))] | _ \<Rightarrow> [])"
  have c: "\<not> truthy ?E \<and> calls = [] \<or>
      ?E = FunRef (case ?E of FunRef f \<Rightarrow> f | _ \<Rightarrow> 0) \<and>
      calls = [(case ?E of FunRef f \<Rightarrow> f | _ \<Rightarrow> 0,
                InvalidConfigError (invalidConfigMessage env ?D))]"
    using typed by (cases ?E) (auto simp: calls_def)
  obtain shape h' where run: "createIntl env h arg cch = Inr (ObjRef shape, h', calls)"
    and loc: "getField (props_of h' shape) ''locale'' = (if truthy ?D then ?D else JStr ''en'')"
    using createIntl_fallback [OF l c, of cch] by blast
  obtain rc fm where "usableShape h' shape rc fm cch"
    "\<forall>k. k \<notin> set shapeNames \<longrightarrow> getField (props_of h' shape) k = getField (props_of h' rc) k"
    "\<forall>k. k \<noteq> ''locale'' \<and> k \<noteq> ''defaultRichTextElements'' \<longrightarrow>
        getField (props_of h' rc) k = resolved env h arg k"
    using createIntl_shape [OF run] by auto
  moreover have "\<not> truthy ?E \<longrightarrow> calls = []"
    by (cases ?E) (simp_all add: calls_def)
  moreover have "\<forall>f. ?E = FunRef f \<longrightarrow>
      calls = [(f, InvalidConfigError (invalidConfigMessage env ?D))]"
    by (auto simp: calls_def)
  ultimately show ?thesis using run loc by blast
qed

lemma createIntl_keeps_full:
  assumes typed: "\<not> truthy (resolved env h arg ''onError'') \<or>
      (\<exists>f. resolved env h arg ''onError'' = FunRef f)"
    and l: "truthy (resolved env h arg ''locale'')"
    and m: "Intl_NumberFormat_supportedLocalesOf env (resolved env h arg ''locale'') = Inr [] \<or>
       Intl_DateTimeFormat_supportedLocalesOf env (resolved env h arg ''locale'') = Inr []"
  shows "\<exists>shape h' calls rc fm.
     createIntl env h arg cch = Inr (ObjRef shape, h', calls) \<and>
     usableShape h' shape rc fm cch \<and>
     (\<forall>k. k \<notin> set shapeNames \<longrightarrow> getField (props_of h' shape) k = getField (props_of h' rc) k) \<and>
     (\<forall>k. k \<noteq> ''locale'' \<and> k \<noteq> ''defaultRichTextElements'' \<longrightarrow>
        getField (props_of h' rc) k = resolved env h arg k) \<and>
     (\<not> truthy (resolved env h arg ''onError'') \<longrightarrow> calls = []) \<and>
     (\<forall>f. resolved env h arg ''onError'' = FunRef f \<longrightarrow> (\<exists>d. calls = [(f, MissingDataError d)])) \<and>
     getField (props_of h' shape) ''locale'' = resolved env h arg ''locale''"
proof -
  let ?E = "resolved env h arg ''onError''"
  let ?D = "resolved env h arg ''defaultLocale''"
  let ?L = "resolved env h arg ''locale''"
  have canon: "canonicalizable env ?L"
    and missing: "numberFormatLocales env ?L = [] \<or> dateTimeFormatLocales env ?L = []"
    using m
    by (auto simp: Intl_NumberFormat_supportedLocalesOf_def
        Intl_DateTimeFormat_supportedLocalesOf_def split: if_splits)
  define g where "g = (case ?E of FunRef f \<Rightarrow> f | _ \<Rightarrow> 0)"
  define calls where "calls =
    (if truthy ?E then
       (if numberFormatLocales env ?L = []
        then [(g, MissingDataError (missingNumberFormatMessage env ?L ?D))]
        else if dateTimeFormatLocales env ?L = []
        then [(g, MissingDataError (missingDateTimeFormatMessage env ?L ?D))]
        else [])
     else [])"
  have c: "\<not> truthy ?E \<and> calls = [] \<or>
      ?E = FunRef g \<and>
      calls =
        (if numberFormatLocales env ?L = []
         then [(g, MissingDataError (missingNumberFormatMessage env ?L ?D))]
         else if dateTimeFormatLocales env ?L = []
         then [(g, MissingDataError (missingDateTimeFormatMessage env ?L ?D))]
         else [])"
    using typed by (cases ?E) (auto simp: calls_def g_def)
  obtain shape h' where run: "createIntl env h arg cch = Inr (ObjRef shape, h', calls)"
    and loc: "getField (props_of h' shape) ''locale'' = ?L"
    using createIntl_keeps [OF l canon c, of cch] by blast
  obtain rc fm where "usableShape h' shape rc fm cch"
    "\<forall>k. k \<notin> set shapeNames \<longrightarrow> getField (props_of h' shape) k = getField (props_of h' rc) k"
    "\<forall>k. k \<noteq> ''locale'' \<and> k \<noteq> ''defaultRichTextElements'' \<longrightarrow>
        getField (props_of h' rc) k = resolved env h arg k"
    using createIntl_shape [OF run] by auto
  moreover have "\<not> truthy ?E \<longrightarrow> calls = []" by (simp add: calls_def)
  moreover have "\<forall>f. ?E = FunRef f \<longrightarrow> (\<exists>d. calls = [(f, MissingDataError d)])"
    using missing by (auto simp: calls_def g_def)
  ultimately show ?thesis using run loc by blast
qed

subsection \<open>The provider\<close>

lemma getDerivedStateFromProps_returns:
  assumes c: "\<And>v. canonicalizable env v"
    and t: "\<not> truthy (getField (props_of h props) ''onError'') \<or>
            (\<exists>f. getField (props_of h props) ''onError'' = FunRef f)"
  shows "\<exists>u h' calls. getDerivedStateFromProps env h props st = Inr (u, h', calls) \<and>
     take (length h) h' = h \<and> length h \<le> length h'"
proof -
  obtain config h1 where p: "processIntlConfig h props = (config, h1)"
    by (cases "processIntlConfig h props")
  have h1: "take (length h) h1 = h" "length h \<le> length h1"
    using processIntlConfig_props [OF p] by simp_all
  show ?thesis
  proof (cases "shallowEquals h1 (prevConfig st) config")
    case True
    then show ?thesis using p h1 by (simp add: getDerivedStateFromProps_def)
  next
    case False
    have "resolved env h1 config ''onError'' = getField (props_of h props) ''onError''"
      using p by (rule resolved_processed) (simp_all add: recognizedFields_def)
    then have "\<not> truthy (resolved env h1 config ''onError'') \<or>
        (\<exists>f. resolved env h1 config ''onError'' = FunRef f)"
      using t by simp
    then obtain shape h2 calls where
      r: "createIntl env h1 config (cache st) = Inr (ObjRef shape, h2, calls)"
      using createIntl_total [of env h1 config "cache st"] c by blast
    have f: "take (length h1) h2 = h1" "length h1 \<le> length h2"
      using createIntl_frame [OF r] by simp_all
    have "take (length h) h2 = h" using h1(1) f(1) by (rule frame_trans)
    then show ?thesis using False p r h1 f by (simp add: getDerivedStateFromProps_def)
  qed
qed

lemma IntlProvider_returns:
  assumes c: "\<And>v. canonicalizable env v"
    and t: "\<not> truthy (getField (props_of h props) ''onError'') \<or>
            (\<exists>f. getField (props_of h props) ''onError'' = FunRef f)"
    and a: "props < length h"
  shows "\<exists>st0 h0 calls. IntlProvider env h props = Inr (st0, h0, calls) \<and>
     take (length h) h0 = h \<and> length h \<le> length h0"
proof -
  define h1 where "h1 = h @ [Object []]"
  have same: "props_of h1 props = props_of h props" using a by (simp add: h1_def props_of_alloc_old)
  obtain config h2 where p: "processIntlConfig h1 props = (config, h2)"
    by (cases "processIntlConfig h1 props")
  have h2: "take (length h1) h2 = h1" "length h1 \<le> length h2"
    using processIntlConfig_props [OF p] by simp_all
  have "resolved env h2 config ''onError'' = getField (props_of h1 props) ''onError''"
    using p by (rule resolved_processed) (simp_all add: recognizedFields_def)
  then have "\<not> truthy (resolved env h2 config ''onError'') \<or>
      (\<exists>f. resolved env h2 config ''onError'' = FunRef f)"
    using t same by simp
  then obtain shape h3 calls where
    r: "createIntl env h2 config (ObjRef (length h)) = Inr (ObjRef shape, h3, calls)"
    using createIntl_total [of env h2 config "ObjRef (length h)"] c by blast
  have h3: "take (length h2) h3 = h2" "length h2 \<le> length h3"
    using createIntl_frame [OF r] by simp_all
  obtain config' h4 where p': "processIntlConfig h3 props = (config', h4)"
    by (cases "processIntlConfig h3 props")
  have h4: "take (length h3) h4 = h3" "length h3 \<le> length h4"
    using processIntlConfig_props [OF p'] by simp_all
  have run: "IntlProvider env h props =
      Inr (\<lparr>cache = ObjRef (length h), intl = ObjRef shape, prevConfig = config'\<rparr>, h4, calls)"
    by (simp add: IntlProvider_def createIntlCache_def alloc_def h1_def [symmetric] p r p')
  have len: "length h \<le> length h4" using h2 h3 h4 by (simp add: h1_def)
  have "take (length h) h1 = h" by (simp add: h1_def)
  then have "take (length h) h2 = h" using h2(1) by (rule frame_trans)
  then have "take (length h) h3 = h" using h3(1) by (rule frame_trans)
  then have "take (length h) h4 = h" using h4(1) by (rule frame_trans)
  then show ?thesis using run len by simp
qed

lemma getDerivedStateFromProps_cache:
  "getDerivedStateFromProps env h props st = Inr (u, h', calls) \<Longrightarrow>
   cache (applyDerivedState st u) = cache st"
  by (auto simp: getDerivedStateFromProps_def split: prod.splits if_splits sum.splits)

lemma renders_cache:
  "renders env h st ps = Inr (st', h', calls) \<Longrightarrow> cache st' = cache st"
proof (induction ps arbitrary: h st calls)
  case Nil
  then show ?case by simp
next
  case (Cons p ps)
  then obtain u h1 cs1 cs2 where
    g: "getDerivedStateFromProps env h p st = Inr (u, h1, cs1)" and
    r: "renders env h1 (applyDerivedState st u) ps = Inr (st', h', cs2)"
    by (auto split: sum.splits prod.splits)
  have "cache st' = cache (applyDerivedState st u)" using r by (rule Cons.IH)
  then show ?case using getDerivedStateFromProps_cache [OF g] by simp
qed

lemma IntlProvider_cache:
  "IntlProvider env h props = Inr (st0, h0, calls0) \<Longrightarrow> cache st0 = ObjRef (length h)"
  by (auto simp: IntlProvider_def createIntlCache_def alloc_def Let_def split: prod.splits sum.splits)

lemma renders_returns:
  assumes c: "\<And>v. canonicalizable env v"
    and t: "\<forall>p\<in>set ps. p < length h \<and>
              (\<not> truthy (getField (props_of h p) ''onError'') \<or>
               (\<exists>f. getField (props_of h p) ''onError'' = FunRef f))"
  shows "\<exists>st' h' calls. renders env h st ps = Inr (st', h', calls)"
  using t
proof (induction ps arbitrary: h st)
  case Nil
  then show ?case by simp
next
  case (Cons p ps)
  have "\<not> truthy (getField (props_of h p) ''onError'') \<or>
      (\<exists>f. getField (props_of h p) ''onError'' = FunRef f)"
    using Cons.prems by simp
  then obtain u h1 cs where g: "getDerivedStateFromProps env h p st = Inr (u, h1, cs)"
    and f: "take (length h) h1 = h" "length h \<le> length h1"
    using getDerivedStateFromProps_returns [of env h p st] c by blast
  have "\<forall>q\<in>set ps. q < length h1 \<and>
              (\<not> truthy (getField (props_of h1 q) ''onError'') \<or>
               (\<exists>f. getField (props_of h1 q) ''onError'' = FunRef f))"
  proof
    fix q assume q: "q \<in> set ps"
    then have ql: "q < length h" using Cons.prems by simp
    have "props_of h1 q = props_of h q"
      using f ql by (intro props_of_take [of "length h"]) simp_all
    then show "q < length h1 \<and>
              (\<not> truthy (getField (props_of h1 q) ''onError'') \<or>
               (\<exists>f. getField (props_of h1 q) ''onError'' = FunRef f))"
      using Cons.prems q ql f by (auto intro: less_le_trans)
  qed
  then obtain st' h' cs' where "renders env h1 (applyDerivedState st u) ps = Inr (st', h', cs')"
    using Cons.IH by blast
  then show ?case using g by simp
qed

subsection \<open>React.Children.toArray\<close>

lemma toArrayParts_views:
  assumes "list_all (modelledPart h0) vs" and "take (length h0) h = h0"
  shows "\<exists>rs h'. toArrayParts h i vs = Some (rs, h') \<and> take (length h) h' = h \<and>
     map (viewPart h') rs = keyedViews h0 i vs \<and>
     list_all (\<lambda>v. case v of ObjRef e \<Rightarrow> length h \<le> e | _ \<Rightarrow> True) rs"
  using assms
proof (induction vs arbitrary: h i)
  case Nil
  then show ?case by simp
next
  case (Cons v vs)
  have rest: "list_all (modelledPart h0) vs" and this_part: "modelledPart h0 v"
    using Cons.prems(1) by simp_all
  have len: "length h0 \<le> length h" using Cons.prems(2) by (rule take_all_length)
  show ?case
  proof (cases "\<exists>e. v = ObjRef e")
    case True
    then obtain e where v: "v = ObjRef e" by blast
    obtain key body where e: "e < length h0" "h0 ! e = Element key body"
      using this_part v by (auto split: cell.splits)
    have he: "h ! e = Element key body" "e < length h"
      using e len nth_of_take [OF Cons.prems(2) e(1)] by simp_all
    define h1 where "h1 = h @ [Element (Some (elementKey i key)) body]"
    have part: "toArrayPart h i v = Some ([ObjRef (length h)], h1)"
      using he by (simp add: v h1_def)
    have f1: "take (length h0) h1 = h0" using Cons.prems(2) len by (simp add: h1_def)
    obtain ys h' where ih: "toArrayParts h1 (Suc i) vs = Some (ys, h')"
      "take (length h1) h' = h1" "map (viewPart h') ys = keyedViews h0 (Suc i) vs"
      "list_all (\<lambda>v. case v of ObjRef e \<Rightarrow> length h1 \<le> e | _ \<Rightarrow> True) ys"
      using Cons.IH [OF rest f1, of "Suc i"] by blast
    have l1: "length h1 \<le> length h'" using ih(2) by (rule take_all_length)
    have at: "h' ! length h = Element (Some (elementKey i key)) body"
      using nth_of_take [OF ih(2), of "length h"] by (simp add: h1_def)
    have view_new: "viewPart h' (ObjRef (length h)) = KeyedElement (elementKey i key) body"
      using at l1 by (simp add: h1_def)
    have view_old: "(case viewPart h0 v of
        TextPart t \<Rightarrow> [TextPart t]
      | KeyedElement k body \<Rightarrow> [KeyedElement (elementKey i (Some k)) body]
      | UnkeyedElement body \<Rightarrow> [KeyedElement (elementKey i None) body]
      | OtherPart \<Rightarrow> []) = [KeyedElement (elementKey i key) body]"
      using e by (cases key) (simp_all add: v)
    have fr: "take (length h) h' = h"
    proof -
      have "take (length h) h1 = h" by (simp add: h1_def)
      then show ?thesis using ih(2) by (rule frame_trans)
    qed
    have fresh: "list_all (\<lambda>v. case v of ObjRef e \<Rightarrow> length h \<le> e | _ \<Rightarrow> True) ys"
      using ih(4) by (auto simp: list_all_iff h1_def split: jsval.splits)
    show ?thesis
      using part ih(1) ih(3) view_new view_old fr fresh by simp
  next
    case False
    then have part: "toArrayPart h i v = Some (if (\<exists>s. v = JStr s) \<or> (\<exists>n. v = JNum n) then [v] else [], h)"
      using this_part by (cases v) simp_all
    obtain ys h' where ih: "toArrayParts h (Suc i) vs = Some (ys, h')"
      "take (length h) h' = h" "map (viewPart h') ys = keyedViews h0 (Suc i) vs"
      "list_all (\<lambda>v. case v of ObjRef e \<Rightarrow> length h \<le> e | _ \<Rightarrow> True) ys"
      using Cons.IH [OF rest Cons.prems(2), of "Suc i"] by blast
    show ?thesis
      using part ih False this_part by (cases v) simp_all
  qed
qed

lemma React_Children_toArray_views:
  assumes "a < length h" and "h ! a = Elements parts" and "list_all (modelledPart h) parts"
  shows "\<exists>r h' rs. React_Children_toArray h (ArrRef a) = Some (ArrRef r, h') \<and>
     length h \<le> r \<and> r < length h' \<and> h' ! r = Elements rs \<and> take (length h) h' = h \<and>
     map (viewPart h') rs = keyedViews h 0 parts \<and>
     list_all (\<lambda>v. case v of ObjRef e \<Rightarrow> length h \<le> e | _ \<Rightarrow> True) rs"
proof -
  obtain rs h1 where p: "toArrayParts h 0 parts = Some (rs, h1)" "take (length h) h1 = h"
    "map (viewPart h1) rs = keyedViews h 0 parts"
    "list_all (\<lambda>v. case v of ObjRef e \<Rightarrow> length h \<le> e | _ \<Rightarrow> True) rs"
    using toArrayParts_views [OF assms(3), of h 0] by auto
  have l: "length h \<le> length h1" using p(2) by (rule take_all_length)
  define h' where "h' = h1 @ [Elements rs]"
  have run: "React_Children_toArray h (ArrRef a) = Some (ArrRef (length h1), h')"
    using assms(1,2) p(1) by (simp add: React_Children_toArray_def h'_def)
  have fr: "take (length h) h' = h" using p(2) l by (simp add: h'_def)
  have "viewPart h' v = viewPart h1 v" if "v \<in> set rs" for v
  proof (cases v)
    case (ObjRef e)
    have "viewPart h1 v \<noteq> OtherPart"
    proof
      assume o: "viewPart h1 v = OtherPart"
      have "viewPart h1 v \<in> set (keyedViews h 0 parts)"
        using that p(3) by (metis image_eqI list.set_map)
      moreover have "OtherPart \<notin> set (keyedViews h i vs)" for i vs
        by (induction vs arbitrary: i) (auto split: part_view.splits)
      ultimately show False using o by simp
    qed
    then have "e < length h1" using ObjRef by (auto split: if_splits)
    then show ?thesis using ObjRef by (simp add: h'_def nth_append)
  qed simp_all
  then have "map (viewPart h') rs = map (viewPart h1) rs" by simp
  then show ?thesis using run l fr p(3,4) by (auto simp: h'_def)
qed

subsection \<open>The sample configurations\<close>

lemma canonicalizable_sample: "canonicalizable env_sample v"
  by (simp add: env_sample_def)

lemma not_canonicalizable_strict: "\<not> canonicalizable env_strict v"
  by (simp add: env_strict_def)

lemma canonicalizable_defaults: "canonicalizable env_defaults v"
  by (simp add: env_defaults_def)

lemma resolved_h_config:
  "resolved env_sample h_config 0 ''locale'' = Undefined"
  "resolved env_sample h_config 0 ''defaultLocale'' = Undefined"
  "resolved env_sample h_config 0 ''onError'' = FunRef 1"
  "resolved env_sample h_config 3 ''locale'' = JStr ''xx-XX''"
  "resolved env_sample h_config 3 ''defaultLocale'' = JStr ''en''"
  "resolved env_sample h_config 3 ''onError'' = FunRef 1"
  "resolved env_sample h_config 4 ''locale'' = JStr ''xx-XX''"
  "resolved env_sample h_config 4 ''defaultLocale'' = JStr ''fr''"
  "resolved env_sample h_config 4 ''onError'' = Undefined"
  "resolved env_sample h_config 5 ''locale'' = Undefined"
  "resolved env_sample h_config 5 ''defaultLocale'' = JStr ''fr''"
  "resolved env_sample h_config 5 ''onError'' = Undefined"
  "resolved env_sample h_config 6 ''locale'' = JStr []"
  "resolved env_sample h_config 6 ''defaultLocale'' = Undefined"
  "resolved env_sample h_config 6 ''onError'' = FunRef 1"
  by (simp_all add: resolved_own resolved_default h_config_def props_of_def env_sample_def)
    (simp_all add: getField_def)

lemma resolved_h_config_rich:
  "resolved env_rich h_config 3 ''locale'' = JStr ''xx-XX''"
  "resolved env_rich h_config 3 ''defaultLocale'' = Undefined"
  "resolved env_rich h_config 3 ''onError'' = FunRef 1"
  by (simp_all add: resolved_own resolved_default h_config_def props_of_def env_rich_def)
    (simp_all add: getField_def)

lemma resolved_h_config_strict:
  "resolved env_strict h_config 4 ''locale'' = JStr ''xx-XX''"
  "resolved env_strict h_config 4 ''onError'' = Undefined"
  by (simp_all add: resolved_own resolved_default h_config_def props_of_def env_strict_def)
    (simp_all add: getField_def)

lemma resolved_h_omitted:
  "resolved env_defaults h_omitted 0 ''locale'' = Undefined"
  "resolved env_defaults h_omitted 0 ''defaultLocale'' = JStr ''fr''"
  "resolved env_defaults h_omitted 0 ''onError'' = FunRef 1"
  "resolved env_defaults h_omitted 3 ''locale'' = JStr ''xx-XX''"
  "resolved env_defaults h_omitted 3 ''defaultLocale'' = JStr ''fr''"
  "resolved env_defaults h_omitted 3 ''onError'' = FunRef 1"
  by (simp_all add: resolved_own resolved_default h_omitted_def props_of_def env_defaults_def)
    (simp_all add: getField_def)

lemma base36_small: "n < 36 \<Longrightarrow> base36 n = [digit36 n]"
  by (subst base36.simps) simp

lemma elementKey_second: "elementKey (Suc 0) None = ''.1''"
  by (simp add: elementKey_def base36_small digit36_def)

section \<open>The change-detection gate\<close>

text \<open>
  Claim C1. For every previous state and new props: if the newly normalized configuration
  is shallow-equal to the previous normalized configuration that the state holds (same
  key set, each corresponding value reference-equal), \<^verbatim>\<open>getDerivedStateFromProps\<close>
  returns \<^verbatim>\<open>null\<close>, and the state, with its shape and its memo, is retained as it is.
  Otherwise it returns a partial state that holds the shape that \<^verbatim>\<open>createIntl\<close> builds
  from the new normalized configuration and the cache of the state, and the new normalized
  configuration as the memo; an exception of \<^verbatim>\<open>createIntl\<close> is passed on.
\<close>

theorem getDerivedStateFromProps_gate:
  assumes "processIntlConfig h props = (config, h1)"
  shows
    "(shallowEquals h1 (prevConfig st) config \<longrightarrow>
        getDerivedStateFromProps env h props st = Inr (None, h1, []) \<and>
        applyDerivedState st None = st) \<and>
     (\<not> shallowEquals h1 (prevConfig st) config \<longrightarrow>
        (\<forall>e. createIntl env h1 config (cache st) = Inl e \<longrightarrow>
           getDerivedStateFromProps env h props st = Inl e) \<and>
        (\<forall>shape h2 calls. createIntl env h1 config (cache st) = Inr (shape, h2, calls) \<longrightarrow>
           getDerivedStateFromProps env h props st =
             Inr (Some \<lparr>new_cache = None, new_intl = Some shape, new_prevConfig = Some config\<rparr>,
                  h2, calls) \<and>
           applyDerivedState st
               (Some \<lparr>new_cache = None, new_intl = Some shape, new_prevConfig = Some config\<rparr>) =
             \<lparr>cache = cache st, intl = shape, prevConfig = config\<rparr>))"
  using assms by (simp add: getDerivedStateFromProps_def)

theorem getDerivedStateFromProps_gate_witness:
  "(\<exists>config h1. processIntlConfig h_props 0 = (config, h1) \<and>
      shallowEquals h1 (prevConfig st_sample) config \<and>
      getDerivedStateFromProps env_sample h_props 0 st_sample = Inr (None, h1, [])) \<and>
   (\<exists>config h1 shape h2 calls. processIntlConfig h_props 1 = (config, h1) \<and>
      \<not> shallowEquals h1 (prevConfig st_sample) config \<and>
      createIntl env_sample h1 config (cache st_sample) = Inr (shape, h2, calls) \<and>
      getDerivedStateFromProps env_sample h_props 1 st_sample =
        Inr (Some \<lparr>new_cache = None, new_intl = Some shape, new_prevConfig = Some config\<rparr>,
             h2, calls)) \<and>
   (\<exists>config h1. processIntlConfig h_props 1 = (config, h1) \<and>
      \<not> shallowEquals h1 (prevConfig st_sample) config \<and>
      createIntl env_strict h1 config (cache st_sample) = Inl RangeError \<and>
      getDerivedStateFromProps env_strict h_props 1 st_sample = Inl RangeError)"
proof -
  obtain c0 h0 where p0: "processIntlConfig h_props 0 = (c0, h0)"
    by (cases "processIntlConfig h_props 0")
  have c0: "c0 = 6" and h0: "h0 = h_props @
      [Object (map (\<lambda>k. (k, getField (props_of h_props 0) k)) recognizedFields)]"
    using processIntlConfig_props [OF p0] by (simp_all add: h_props_def)
  have "props_of h0 4 = props_of h0 6"
    unfolding h0
    by (simp add: recognizedFields_def h_props_def props_of_def getField_def nth_append)
  then have eq: "shallowEquals h0 (prevConfig st_sample) c0"
    unfolding c0 by (simp add: st_sample_def shallowEquals_same_props)
  obtain c1 h1 where p1: "processIntlConfig h_props 1 = (c1, h1)"
    by (cases "processIntlConfig h_props 1")
  have c1: "c1 = 6" and h1: "h1 = h_props @
      [Object (map (\<lambda>k. (k, getField (props_of h_props 1) k)) recognizedFields)]"
    using processIntlConfig_props [OF p1] by (simp_all add: h_props_def)
  have "getField (props_of h1 4) ''locale'' \<noteq> getField (props_of h1 6) ''locale''"
    unfolding h1
    by (simp add: recognizedFields_def h_props_def props_of_def getField_def nth_append)
  moreover have "''locale'' \<in> set (ownKeys (props_of h1 4))"
    unfolding h1 by (simp add: h_props_def props_of_def ownKeys_def nth_append)
  ultimately have neq: "\<not> shallowEquals h1 (prevConfig st_sample) c1"
    unfolding c1 by (auto simp: st_sample_def shallowEquals_def Let_def list_all_iff)
  have "resolved env_sample h1 c1 ''onError'' = getField (props_of h_props 1) ''onError''"
    using p1 by (rule resolved_processed) (simp_all add: recognizedFields_def)
  then have "\<not> truthy (resolved env_sample h1 c1 ''onError'')"
    by (simp add: h_props_def props_of_def getField_def)
  then obtain shape h2 calls where
    r: "createIntl env_sample h1 c1 (cache st_sample) = Inr (ObjRef shape, h2, calls)"
    using createIntl_total [of env_sample h1 c1 "cache st_sample"] canonicalizable_sample by blast
  have "resolved env_strict h1 c1 ''locale'' = getField (props_of h_props 1) ''locale''"
    using p1 by (rule resolved_processed) (simp_all add: recognizedFields_def)
  then have "truthy (resolved env_strict h1 c1 ''locale'')"
    by (simp add: h_props_def props_of_def getField_def)
  then have t: "createIntl env_strict h1 c1 (cache st_sample) = Inl RangeError"
    using not_canonicalizable_strict by (intro createIntl_rejects) simp_all
  show ?thesis
    using p0 eq p1 neq r t
      getDerivedStateFromProps_gate [OF p0, of st_sample env_sample]
      getDerivedStateFromProps_gate [OF p1, of st_sample env_sample]
      getDerivedStateFromProps_gate [OF p1, of st_sample env_strict]
    by blast
qed

section \<open>The context builder: locale resolution and diagnostics\<close>

text \<open>
  Claim C2, at a configuration that has neither a locale nor a default locale, but a
  callback (and at the same configuration with the empty string as its locale). The
  effective locale of the shape is the fallback \<^verbatim>\<open>"en"\<close> and the callback is called
  once, with a configuration error; but the message of that error names
  \<^verbatim>\<open>"undefined"\<close> as the fallback, not \<^verbatim>\<open>"en"\<close>: line 154 interpolates
  \<^verbatim>\<open>defaultLocale\<close>, and line 163 falls back to \<^verbatim>\<open>defaultLocale || 'en'\<close>.
\<close>

theorem createIntl_fallback_message_names_undefined:
  \<open>(\<exists>shape h'.
      createIntl env_sample h_config 0 (ObjRef 2) =
        Inr (ObjRef shape, h',
             [(1, InvalidConfigError ''"locale" was not configured, using "undefined" as fallback. See https://formatjs.io/docs/react-intl/api#intlshape for more details'')]) \<and>
      getField (props_of h' shape) ''locale'' = JStr ''en'') \<and>
   (\<exists>shape h'.
      createIntl env_sample h_config 6 (ObjRef 2) =
        Inr (ObjRef shape, h',
             [(1, InvalidConfigError ''"locale" was not configured, using "undefined" as fallback. See https://formatjs.io/docs/react-intl/api#intlshape for more details'')]) \<and>
      getField (props_of h' shape) ''locale'' = JStr ''en'')\<close>
  using createIntl_fallback [of env_sample h_config 0 _ 1 "ObjRef 2"]
    createIntl_fallback [of env_sample h_config 6 _ 1 "ObjRef 2"]
  by (simp add: resolved_h_config invalidConfigMessage_def)

text \<open>
  Claim C3. For every configuration whose locale is present (truthy: line 150 takes an
  empty string for a missing locale), with a callback \<^verbatim>\<open>onError\<close>: when the platform's number formatting supports none of the locale,
  \<^verbatim>\<open>createIntl\<close> calls \<^verbatim>\<open>onError\<close> exactly once, with the missing-data diagnostic of the
  number format, whatever the date and time formatting supports; when number formatting
  supports the locale and date and time formatting does not, it calls \<^verbatim>\<open>onError\<close>
  exactly once, with the missing-data diagnostic of the date and time format. In both
  cases the locale of the returned shape is the one requested. No call of
  \<^verbatim>\<open>createIntl\<close> makes more than one call of \<^verbatim>\<open>onError\<close>.
\<close>

theorem createIntl_missing_data:
  assumes "truthy (resolved env h arg ''locale'')"
    and "resolved env h arg ''onError'' = FunRef f"
  shows
    "(Intl_NumberFormat_supportedLocalesOf env (resolved env h arg ''locale'') = Inr [] \<longrightarrow>
        (\<exists>shape h'. createIntl env h arg cch =
            Inr (ObjRef shape, h',
                 [(f, MissingDataError (missingNumberFormatMessage env
                        (resolved env h arg ''locale'') (resolved env h arg ''defaultLocale'')))]) \<and>
          getField (props_of h' shape) ''locale'' = resolved env h arg ''locale'')) \<and>
     (\<forall>nf. Intl_NumberFormat_supportedLocalesOf env (resolved env h arg ''locale'') = Inr nf \<and>
           nf \<noteq> [] \<and>
           Intl_DateTimeFormat_supportedLocalesOf env (resolved env h arg ''locale'') = Inr [] \<longrightarrow>
        (\<exists>shape h'. createIntl env h arg cch =
            Inr (ObjRef shape, h',
                 [(f, MissingDataError (missingDateTimeFormatMessage env
                        (resolved env h arg ''locale'') (resolved env h arg ''defaultLocale'')))]) \<and>
          getField (props_of h' shape) ''locale'' = resolved env h arg ''locale'')) \<and>
     (\<forall>shape h' calls. createIntl env h arg cch = Inr (shape, h', calls) \<longrightarrow> length calls \<le> 1)"
proof (intro conjI impI allI)
  assume nf: "Intl_NumberFormat_supportedLocalesOf env (resolved env h arg ''locale'') = Inr []"
  then have c: "canonicalizable env (resolved env h arg ''locale'')"
    and e: "numberFormatLocales env (resolved env h arg ''locale'') = []"
    by (auto simp: Intl_NumberFormat_supportedLocalesOf_def split: if_splits)
  show "\<exists>shape h'. createIntl env h arg cch =
            Inr (ObjRef shape, h',
                 [(f, MissingDataError (missingNumberFormatMessage env
                        (resolved env h arg ''locale'') (resolved env h arg ''defaultLocale'')))]) \<and>
          getField (props_of h' shape) ''locale'' = resolved env h arg ''locale''"
    using assms c e by (intro createIntl_keeps [where f = f]) simp_all
next
  fix nf
  assume a: "Intl_NumberFormat_supportedLocalesOf env (resolved env h arg ''locale'') = Inr nf \<and>
           nf \<noteq> [] \<and>
           Intl_DateTimeFormat_supportedLocalesOf env (resolved env h arg ''locale'') = Inr []"
  then have c: "canonicalizable env (resolved env h arg ''locale'')"
    and e: "numberFormatLocales env (resolved env h arg ''locale'') \<noteq> []"
      "dateTimeFormatLocales env (resolved env h arg ''locale'') = []"
    by (auto simp: Intl_NumberFormat_supportedLocalesOf_def
        Intl_DateTimeFormat_supportedLocalesOf_def split: if_splits)
  show "\<exists>shape h'. createIntl env h arg cch =
            Inr (ObjRef shape, h',
                 [(f, MissingDataError (missingDateTimeFormatMessage env
                        (resolved env h arg ''locale'') (resolved env h arg ''defaultLocale'')))]) \<and>
          getField (props_of h' shape) ''locale'' = resolved env h arg ''locale''"
    using assms c e by (intro createIntl_keeps [where f = f]) simp_all
next
  fix shape h' calls
  assume "createIntl env h arg cch = Inr (shape, h', calls)"
  then show "length calls \<le> 1" by (rule createIntl_calls)
qed

theorem createIntl_missing_data_witness:
  \<open>truthy (resolved env_sample h_config 3 ''locale'') \<and>
   resolved env_sample h_config 3 ''onError'' = FunRef 1 \<and>
   Intl_NumberFormat_supportedLocalesOf env_sample (resolved env_sample h_config 3 ''locale'') = Inr [] \<and>
   Intl_DateTimeFormat_supportedLocalesOf env_sample (resolved env_sample h_config 3 ''locale'') = Inr [] \<and>
   (\<exists>shape h'. createIntl env_sample h_config 3 (ObjRef 2) =
       Inr (ObjRef shape, h',
            [(1, MissingDataError ''Missing locale data for locale: "xx-XX" in Intl.NumberFormat. Using default locale: "en" as fallback. See https://formatjs.io/docs/react-intl#runtime-requirements for more details'')]) \<and>
     getField (props_of h' shape) ''locale'' = JStr ''xx-XX'') \<and>
   truthy (resolved env_rich h_config 3 ''locale'') \<and>
   resolved env_rich h_config 3 ''onError'' = FunRef 1 \<and>
   Intl_NumberFormat_supportedLocalesOf env_rich (resolved env_rich h_config 3 ''locale'') = Inr [''en''] \<and>
   Intl_DateTimeFormat_supportedLocalesOf env_rich (resolved env_rich h_config 3 ''locale'') = Inr [] \<and>
   (\<exists>shape h'. createIntl env_rich h_config 3 (ObjRef 2) =
       Inr (ObjRef shape, h',
            [(1, MissingDataError ''Missing locale data for locale: "xx-XX" in Intl.DateTimeFormat. Using default locale: "undefined" as fallback. See https://formatjs.io/docs/react-intl#runtime-requirements for more details'')]) \<and>
     getField (props_of h' shape) ''locale'' = JStr ''xx-XX'')\<close>
proof -
  have a: "truthy (resolved env_sample h_config 3 ''locale'')"
    and b: "resolved env_sample h_config 3 ''onError'' = FunRef 1"
    by (simp_all add: resolved_h_config)
  have c: "Intl_NumberFormat_supportedLocalesOf env_sample (resolved env_sample h_config 3 ''locale'') = Inr []"
    and d: "Intl_DateTimeFormat_supportedLocalesOf env_sample (resolved env_sample h_config 3 ''locale'') = Inr []"
    unfolding resolved_h_config
    by (simp_all add: Intl_NumberFormat_supportedLocalesOf_def
        Intl_DateTimeFormat_supportedLocalesOf_def env_sample_def)
  have a': "truthy (resolved env_rich h_config 3 ''locale'')"
    and b': "resolved env_rich h_config 3 ''onError'' = FunRef 1"
    by (simp_all add: resolved_h_config_rich)
  have c': "Intl_NumberFormat_supportedLocalesOf env_rich (resolved env_rich h_config 3 ''locale'') = Inr [''en'']"
    and d': "Intl_DateTimeFormat_supportedLocalesOf env_rich (resolved env_rich h_config 3 ''locale'') = Inr []"
    unfolding resolved_h_config_rich
    by (simp_all add: Intl_NumberFormat_supportedLocalesOf_def
        Intl_DateTimeFormat_supportedLocalesOf_def env_rich_def)
  have first: \<open>\<exists>shape h'. createIntl env_sample h_config 3 (ObjRef 2) =
       Inr (ObjRef shape, h',
            [(1, MissingDataError ''Missing locale data for locale: "xx-XX" in Intl.NumberFormat. Using default locale: "en" as fallback. See https://formatjs.io/docs/react-intl#runtime-requirements for more details'')]) \<and>
     getField (props_of h' shape) ''locale'' = JStr ''xx-XX''\<close>
    using c createIntl_missing_data [OF a b, of "ObjRef 2"]
    by (simp add: resolved_h_config missingNumberFormatMessage_def)
  have second: \<open>\<exists>shape h'. createIntl env_rich h_config 3 (ObjRef 2) =
       Inr (ObjRef shape, h',
            [(1, MissingDataError ''Missing locale data for locale: "xx-XX" in Intl.DateTimeFormat. Using default locale: "undefined" as fallback. See https://formatjs.io/docs/react-intl#runtime-requirements for more details'')]) \<and>
     getField (props_of h' shape) ''locale'' = JStr ''xx-XX''\<close>
    using c' d' createIntl_missing_data [OF a' b', of "ObjRef 2"]
    by (simp add: resolved_h_config_rich missingDateTimeFormatMessage_def)
  show ?thesis using a b c d first a' b' c' d' second by blast
qed

text \<open>
  Claim C4, amended. For every configuration (whose \<^verbatim>\<open>onError\<close> is a function or absent,
  as its type has it), \<^verbatim>\<open>createIntl\<close> does not throw for a diagnostic condition: when
  the locale is missing it returns a usable shape with the fallback locale, and when the
  locale is present and the number format or the date and time format has no data for it,
  it returns a usable shape with the locale requested. A usable shape holds the fields of
  the resolved configuration, the formatters on the cache given, and each formatting
  function bound to the resolved configuration and its formatter accessor. The callback
  that decides about the diagnostic is the one of the resolved configuration: the
  configuration's own \<^verbatim>\<open>onError\<close> if it has that property (even as \<^verbatim>\<open>undefined\<close>), and
  the one of \<^verbatim>\<open>DEFAULT_INTL_CONFIG\<close> if it has not. When that callback is absent,
  \<^verbatim>\<open>createIntl\<close> calls nothing and the diagnostic is dropped. When it is a function, that
  function is called exactly once with the diagnostic; this is also so when the
  configuration has no \<^verbatim>\<open>onError\<close> and the function is the default's. The one exception
  that \<^verbatim>\<open>createIntl\<close> can throw is the platform's, for a locale that the platform cannot
  canonicalize.
\<close>

theorem createIntl_diagnostics_never_throw:
  assumes typed: "\<not> truthy (resolved env h arg ''onError'') \<or>
      (\<exists>f. resolved env h arg ''onError'' = FunRef f)"
  shows
    "(''onError'' \<in> fst ` set (props_of h arg) \<longrightarrow>
        resolved env h arg ''onError'' = getField (props_of h arg) ''onError'') \<and>
     (''onError'' \<notin> fst ` set (props_of h arg) \<longrightarrow>
        resolved env h arg ''onError'' = getField (DEFAULT_INTL_CONFIG env) ''onError'') \<and>
     (\<forall>e. createIntl env h arg cch = Inl e \<longrightarrow>
        e = RangeError \<and> truthy (resolved env h arg ''locale'') \<and>
        \<not> canonicalizable env (resolved env h arg ''locale'')) \<and>
     (\<not> truthy (resolved env h arg ''locale'') \<longrightarrow>
        (\<exists>shape h' calls rc fm.
           createIntl env h arg cch = Inr (ObjRef shape, h', calls) \<and>
           usableShape h' shape rc fm cch \<and>
           (\<forall>k. k \<notin> set shapeNames \<longrightarrow>
              getField (props_of h' shape) k = getField (props_of h' rc) k) \<and>
           (\<forall>k. k \<noteq> ''locale'' \<and> k \<noteq> ''defaultRichTextElements'' \<longrightarrow>
              getField (props_of h' rc) k = resolved env h arg k) \<and>
           (\<not> truthy (resolved env h arg ''onError'') \<longrightarrow> calls = []) \<and>
           (\<forall>f. resolved env h arg ''onError'' = FunRef f \<longrightarrow>
              calls = [(f, InvalidConfigError
                             (invalidConfigMessage env (resolved env h arg ''defaultLocale'')))]) \<and>
           getField (props_of h' shape) ''locale'' =
             (if truthy (resolved env h arg ''defaultLocale'')
              then resolved env h arg ''defaultLocale'' else JStr ''en''))) \<and>
     (truthy (resolved env h arg ''locale'') \<and>
      (Intl_NumberFormat_supportedLocalesOf env (resolved env h arg ''locale'') = Inr [] \<or>
       Intl_DateTimeFormat_supportedLocalesOf env (resolved env h arg ''locale'') = Inr []) \<longrightarrow>
        (\<exists>shape h' calls rc fm.
           createIntl env h arg cch = Inr (ObjRef shape, h', calls) \<and>
           usableShape h' shape rc fm cch \<and>
           (\<forall>k. k \<notin> set shapeNames \<longrightarrow>
              getField (props_of h' shape) k = getField (props_of h' rc) k) \<and>
           (\<forall>k. k \<noteq> ''locale'' \<and> k \<noteq> ''defaultRichTextElements'' \<longrightarrow>
              getField (props_of h' rc) k = resolved env h arg k) \<and>
           (\<not> truthy (resolved env h arg ''onError'') \<longrightarrow> calls = []) \<and>
           (\<forall>f. resolved env h arg ''onError'' = FunRef f \<longrightarrow>
              (\<exists>d. calls = [(f, MissingDataError d)])) \<and>
           getField (props_of h' shape) ''locale'' = resolved env h arg ''locale''))"
proof -
  let ?L = "resolved env h arg ''locale''"
  have own: "''onError'' \<in> fst ` set (props_of h arg) \<longrightarrow>
        resolved env h arg ''onError'' = getField (props_of h arg) ''onError''"
    by (simp add: resolved_own)
  have dflt: "''onError'' \<notin> fst ` set (props_of h arg) \<longrightarrow>
        resolved env h arg ''onError'' = getField (DEFAULT_INTL_CONFIG env) ''onError''"
    by (simp add: resolved_default)
  have throws: "e = RangeError \<and> truthy ?L \<and> \<not> canonicalizable env ?L"
    if e: "createIntl env h arg cch = Inl e" for e
  proof (cases "truthy ?L")
    case False
    then show ?thesis using createIntl_typed_fallback [OF typed False, of cch] e by auto
  next
    case True
    show ?thesis
    proof (cases "canonicalizable env ?L")
      case True
      then show ?thesis using createIntl_typed_keeps [OF typed \<open>truthy ?L\<close> True, of cch] e by auto
    next
      case False
      then show ?thesis using createIntl_rejects [of env h arg cch] True e by simp
    qed
  qed
  have thr: "\<forall>e. createIntl env h arg cch = Inl e \<longrightarrow>
        e = RangeError \<and> truthy ?L \<and> \<not> canonicalizable env ?L"
    using throws by blast
  show ?thesis
    apply (intro conjI)
        apply (rule own)
       apply (rule dflt)
      apply (rule thr)
     apply (rule impI)
     apply (erule createIntl_fallback_full [OF typed])
    apply (rule impI)
    apply (erule conjE)
    apply (erule (1) createIntl_keeps_full [OF typed])
    done
qed

theorem createIntl_diagnostics_never_throw_witness:
  \<open>\<not> truthy (resolved env_sample h_config 5 ''onError'') \<and>
   \<not> truthy (resolved env_sample h_config 5 ''locale'') \<and>
   (\<exists>shape h' rc fm. createIntl env_sample h_config 5 (ObjRef 2) = Inr (ObjRef shape, h', []) \<and>
      usableShape h' shape rc fm (ObjRef 2) \<and>
      getField (props_of h' shape) ''locale'' = JStr ''fr'') \<and>
   \<not> truthy (resolved env_sample h_config 4 ''onError'') \<and>
   truthy (resolved env_sample h_config 4 ''locale'') \<and>
   Intl_NumberFormat_supportedLocalesOf env_sample (resolved env_sample h_config 4 ''locale'') = Inr [] \<and>
   (\<exists>shape h' rc fm. createIntl env_sample h_config 4 (ObjRef 2) = Inr (ObjRef shape, h', []) \<and>
      usableShape h' shape rc fm (ObjRef 2) \<and>
      getField (props_of h' shape) ''locale'' = JStr ''xx-XX'') \<and>
   ''onError'' \<notin> fst ` set (props_of h_omitted 0) \<and>
   resolved env_defaults h_omitted 0 ''onError'' = FunRef 1 \<and>
   \<not> truthy (resolved env_defaults h_omitted 0 ''locale'') \<and>
   (\<exists>shape h' rc fm. createIntl env_defaults h_omitted 0 (ObjRef 2) =
      Inr (ObjRef shape, h',
           [(1, InvalidConfigError ''"locale" was not configured, using "fr" as fallback. See https://formatjs.io/docs/react-intl/api#intlshape for more details'')]) \<and>
      usableShape h' shape rc fm (ObjRef 2) \<and>
      getField (props_of h' shape) ''locale'' = JStr ''fr'') \<and>
   \<not> truthy (resolved env_strict h_config 4 ''onError'') \<and>
   createIntl env_strict h_config 4 (ObjRef 2) = Inl RangeError \<and>
   truthy (resolved env_strict h_config 4 ''locale'') \<and>
   \<not> canonicalizable env_strict (resolved env_strict h_config 4 ''locale'')\<close>
proof -
  have e5: "\<not> truthy (resolved env_sample h_config 5 ''onError'')"
    and l5: "\<not> truthy (resolved env_sample h_config 5 ''locale'')"
    and e4: "\<not> truthy (resolved env_sample h_config 4 ''onError'')"
    and l4: "truthy (resolved env_sample h_config 4 ''locale'')"
    by (simp_all add: resolved_h_config)
  have n4: "Intl_NumberFormat_supportedLocalesOf env_sample (resolved env_sample h_config 4 ''locale'') = Inr []"
    unfolding resolved_h_config
    by (simp add: Intl_NumberFormat_supportedLocalesOf_def env_sample_def)
  have t5: "\<not> truthy (resolved env_sample h_config 5 ''onError'') \<or>
      (\<exists>f. resolved env_sample h_config 5 ''onError'' = FunRef f)"
    and t4: "\<not> truthy (resolved env_sample h_config 4 ''onError'') \<or>
      (\<exists>f. resolved env_sample h_config 4 ''onError'' = FunRef f)"
    using e5 e4 by simp_all
  have r5: "\<exists>shape h' rc fm. createIntl env_sample h_config 5 (ObjRef 2) = Inr (ObjRef shape, h', []) \<and>
      usableShape h' shape rc fm (ObjRef 2) \<and>
      getField (props_of h' shape) ''locale'' = JStr ''fr''"
  proof -
    obtain shape h' calls rc fm where
      "createIntl env_sample h_config 5 (ObjRef 2) = Inr (ObjRef shape, h', calls)"
      "usableShape h' shape rc fm (ObjRef 2)" "calls = []"
      "getField (props_of h' shape) ''locale'' =
         (if truthy (resolved env_sample h_config 5 ''defaultLocale'')
          then resolved env_sample h_config 5 ''defaultLocale'' else JStr ''en'')"
      using createIntl_diagnostics_never_throw [OF t5, of "ObjRef 2", THEN conjunct2,
          THEN conjunct2, THEN conjunct2, THEN conjunct1, THEN mp, OF l5] e5
      by (elim exE conjE) blast
    then show ?thesis by (auto simp: resolved_h_config)
  qed
  have r4: "\<exists>shape h' rc fm. createIntl env_sample h_config 4 (ObjRef 2) = Inr (ObjRef shape, h', []) \<and>
      usableShape h' shape rc fm (ObjRef 2) \<and>
      getField (props_of h' shape) ''locale'' = JStr ''xx-XX''"
  proof -
    obtain shape h' calls rc fm where
      "createIntl env_sample h_config 4 (ObjRef 2) = Inr (ObjRef shape, h', calls)"
      "usableShape h' shape rc fm (ObjRef 2)" "calls = []"
      "getField (props_of h' shape) ''locale'' = resolved env_sample h_config 4 ''locale''"
      using createIntl_diagnostics_never_throw [OF t4, of "ObjRef 2", THEN conjunct2,
          THEN conjunct2, THEN conjunct2, THEN conjunct2, THEN mp, OF conjI [OF l4 disjI1 [OF n4]]] e4
      by (elim exE conjE) blast
    then show ?thesis by (auto simp: resolved_h_config)
  qed
  have a0: "''onError'' \<notin> fst ` set (props_of h_omitted 0)"
    by (simp add: h_omitted_def props_of_def)
  have e0: "resolved env_defaults h_omitted 0 ''onError'' = FunRef 1"
    and l0: "\<not> truthy (resolved env_defaults h_omitted 0 ''locale'')"
    by (simp_all add: resolved_h_omitted)
  have t0: "\<not> truthy (resolved env_defaults h_omitted 0 ''onError'') \<or>
      (\<exists>f. resolved env_defaults h_omitted 0 ''onError'' = FunRef f)"
    using e0 by simp
  have r0: \<open>\<exists>shape h' rc fm. createIntl env_defaults h_omitted 0 (ObjRef 2) =
      Inr (ObjRef shape, h',
           [(1, InvalidConfigError ''"locale" was not configured, using "fr" as fallback. See https://formatjs.io/docs/react-intl/api#intlshape for more details'')]) \<and>
      usableShape h' shape rc fm (ObjRef 2) \<and>
      getField (props_of h' shape) ''locale'' = JStr ''fr''\<close>
  proof -
    obtain shape h' calls rc fm where
      "createIntl env_defaults h_omitted 0 (ObjRef 2) = Inr (ObjRef shape, h', calls)"
      "usableShape h' shape rc fm (ObjRef 2)"
      "calls = [(1, InvalidConfigError
                     (invalidConfigMessage env_defaults
                        (resolved env_defaults h_omitted 0 ''defaultLocale'')))]"
      "getField (props_of h' shape) ''locale'' =
         (if truthy (resolved env_defaults h_omitted 0 ''defaultLocale'')
          then resolved env_defaults h_omitted 0 ''defaultLocale'' else JStr ''en'')"
      using createIntl_diagnostics_never_throw [OF t0, of "ObjRef 2", THEN conjunct2,
          THEN conjunct2, THEN conjunct2, THEN conjunct1, THEN mp, OF l0] e0
      by (elim exE conjE) blast
    then show ?thesis
      unfolding resolved_h_omitted by (auto simp: invalidConfigMessage_def)
  qed
  have es: "\<not> truthy (resolved env_strict h_config 4 ''onError'')"
    and ls: "truthy (resolved env_strict h_config 4 ''locale'')"
    by (simp_all add: resolved_h_config_strict)
  have ts: "\<not> truthy (resolved env_strict h_config 4 ''onError'') \<or>
      (\<exists>f. resolved env_strict h_config 4 ''onError'' = FunRef f)"
    using es by simp
  have "createIntl env_strict h_config 4 (ObjRef 2) = Inl RangeError"
    using ls not_canonicalizable_strict by (intro createIntl_rejects) simp_all
  then have rs: "createIntl env_strict h_config 4 (ObjRef 2) = Inl RangeError \<and>
      truthy (resolved env_strict h_config 4 ''locale'') \<and>
      \<not> canonicalizable env_strict (resolved env_strict h_config 4 ''locale'')"
    using createIntl_diagnostics_never_throw [OF ts, of "ObjRef 2", THEN conjunct2,
        THEN conjunct2, THEN conjunct1] by blast
  show ?thesis
    apply (intro conjI)
                   apply (rule e5)
                  apply (rule l5)
                 apply (rule r5)
                apply (rule e4)
               apply (rule l4)
              apply (rule n4)
             apply (rule r4)
            apply (rule a0)
           apply (rule e0)
          apply (rule l0)
         apply (rule r0)
        apply (rule es)
       apply (rule rs [THEN conjunct1])
      apply (rule rs [THEN conjunct2, THEN conjunct1])
    apply (rule rs [THEN conjunct2, THEN conjunct2])
    done
qed

text \<open>
  Claim C4 as it was stated fails where the configuration has no \<^verbatim>\<open>onError\<close> and the
  defaults hold a handler: line 144 spreads \<^verbatim>\<open>DEFAULT_INTL_CONFIG\<close> first, the handler
  of the defaults is the \<^verbatim>\<open>onError\<close> that line 149 reads, and it is given the diagnostic,
  for a missing locale and for missing data alike.
\<close>

theorem createIntl_default_handler_is_called:
  \<open>''onError'' \<notin> fst ` set (props_of h_omitted 0) \<and>
   (\<exists>shape h'. createIntl env_defaults h_omitted 0 (ObjRef 2) =
      Inr (ObjRef shape, h',
           [(1, InvalidConfigError ''"locale" was not configured, using "fr" as fallback. See https://formatjs.io/docs/react-intl/api#intlshape for more details'')])) \<and>
   ''onError'' \<notin> fst ` set (props_of h_omitted 3) \<and>
   (\<exists>shape h'. createIntl env_defaults h_omitted 3 (ObjRef 2) =
      Inr (ObjRef shape, h',
           [(1, MissingDataError ''Missing locale data for locale: "xx-XX" in Intl.NumberFormat. Using default locale: "fr" as fallback. See https://formatjs.io/docs/react-intl#runtime-requirements for more details'')]))\<close>
proof -
  have absent: "''onError'' \<notin> fst ` set (props_of h_omitted 0)"
    "''onError'' \<notin> fst ` set (props_of h_omitted 3)"
    by (simp_all add: h_omitted_def props_of_def)
  have c0: "\<not> truthy (resolved env_defaults h_omitted 0 ''onError'') \<and>
        [(1, InvalidConfigError
               (invalidConfigMessage env_defaults (resolved env_defaults h_omitted 0 ''defaultLocale'')))] = [] \<or>
      resolved env_defaults h_omitted 0 ''onError'' = FunRef 1 \<and>
        [(1, InvalidConfigError
               (invalidConfigMessage env_defaults (resolved env_defaults h_omitted 0 ''defaultLocale'')))] =
        [(1, InvalidConfigError
               (invalidConfigMessage env_defaults (resolved env_defaults h_omitted 0 ''defaultLocale'')))]"
    by (simp add: resolved_h_omitted)
  have l0: "\<not> truthy (resolved env_defaults h_omitted 0 ''locale'')"
    by (simp add: resolved_h_omitted)
  obtain shape0 h0 where "createIntl env_defaults h_omitted 0 (ObjRef 2) =
      Inr (ObjRef shape0, h0,
           [(1, InvalidConfigError
                  (invalidConfigMessage env_defaults (resolved env_defaults h_omitted 0 ''defaultLocale'')))])"
    using createIntl_fallback [OF l0 c0, of "ObjRef 2"] by blast
  then have first: \<open>\<exists>shape h'. createIntl env_defaults h_omitted 0 (ObjRef 2) =
      Inr (ObjRef shape, h',
           [(1, InvalidConfigError ''"locale" was not configured, using "fr" as fallback. See https://formatjs.io/docs/react-intl/api#intlshape for more details'')])\<close>
    unfolding resolved_h_omitted by (simp add: invalidConfigMessage_def)
  have l3: "truthy (resolved env_defaults h_omitted 3 ''locale'')"
    by (simp add: resolved_h_omitted)
  have n3: "numberFormatLocales env_defaults (resolved env_defaults h_omitted 3 ''locale'') = []"
    by (simp add: env_defaults_def)
  have c3: "\<not> truthy (resolved env_defaults h_omitted 3 ''onError'') \<and>
        [(1, MissingDataError (missingNumberFormatMessage env_defaults
               (resolved env_defaults h_omitted 3 ''locale'')
               (resolved env_defaults h_omitted 3 ''defaultLocale'')))] = [] \<or>
      resolved env_defaults h_omitted 3 ''onError'' = FunRef 1 \<and>
        [(1, MissingDataError (missingNumberFormatMessage env_defaults
               (resolved env_defaults h_omitted 3 ''locale'')
               (resolved env_defaults h_omitted 3 ''defaultLocale'')))] =
        (if numberFormatLocales env_defaults (resolved env_defaults h_omitted 3 ''locale'') = []
         then [(1, MissingDataError (missingNumberFormatMessage env_defaults
               (resolved env_defaults h_omitted 3 ''locale'')
               (resolved env_defaults h_omitted 3 ''defaultLocale'')))]
         else if dateTimeFormatLocales env_defaults (resolved env_defaults h_omitted 3 ''locale'') = []
         then [(1, MissingDataError (missingDateTimeFormatMessage env_defaults
               (resolved env_defaults h_omitted 3 ''locale'')
               (resolved env_defaults h_omitted 3 ''defaultLocale'')))]
         else [])"
    by (simp add: n3) (simp add: resolved_h_omitted)
  obtain shape3 h3 where "createIntl env_defaults h_omitted 3 (ObjRef 2) =
      Inr (ObjRef shape3, h3,
           [(1, MissingDataError (missingNumberFormatMessage env_defaults
               (resolved env_defaults h_omitted 3 ''locale'')
               (resolved env_defaults h_omitted 3 ''defaultLocale'')))])"
    using createIntl_keeps [OF l3 canonicalizable_defaults c3, of "ObjRef 2"] by blast
  then have second: \<open>\<exists>shape h'. createIntl env_defaults h_omitted 3 (ObjRef 2) =
      Inr (ObjRef shape, h',
           [(1, MissingDataError ''Missing locale data for locale: "xx-XX" in Intl.NumberFormat. Using default locale: "fr" as fallback. See https://formatjs.io/docs/react-intl#runtime-requirements for more details'')])\<close>
    unfolding resolved_h_omitted by (simp add: missingNumberFormatMessage_def)
  show ?thesis using absent first second by blast
qed

section \<open>The configuration normalizer: properties\<close>

text \<open>
  Claim C5. For every raw configuration object, \<^verbatim>\<open>processIntlConfig\<close> returns a record
  of exactly the ten recognized fields, in the order of the spec, each value passed through
  from the input as it is (\<^verbatim>\<open>undefined\<close> when the input has none). It changes nothing
  that exists: the store after the call is the store before it with the one new object
  at its end. No field of the input other than the ten can appear in the output or
  affect it: two inputs that agree on the ten fields give the same result.
\<close>

theorem processIntlConfig_recognized_fields:
  "fst (processIntlConfig h config) = length h \<and>
   snd (processIntlConfig h config) =
     h @ [Object (map (\<lambda>k. (k, getField (props_of h config) k)) recognizedFields)] \<and>
   (\<forall>config'.
      list_all (\<lambda>k. getField (props_of h config') k = getField (props_of h config) k)
        recognizedFields \<longrightarrow>
      processIntlConfig h config' = processIntlConfig h config)"
  by (simp add: processIntlConfig_def alloc_def recognizedFields_def Let_def)

theorem processIntlConfig_recognized_fields_witness:
  "list_all (\<lambda>k. getField (props_of h_children 1) k = getField (props_of h_children 0) k)
     recognizedFields \<and>
   processIntlConfig h_children 1 = processIntlConfig h_children 0"
proof -
  have a: "list_all (\<lambda>k. getField (props_of h_children 1) k = getField (props_of h_children 0) k)
     recognizedFields"
    by (simp add: recognizedFields_def h_children_def props_of_def getField_def)
  show ?thesis
    using a processIntlConfig_recognized_fields [of h_children 0] by blast
qed

text \<open>
  Claim C6. Normalizing a normalized configuration again gives a configuration that is
  shallow-equal to it: a new object with the same properties.
\<close>

theorem processIntlConfig_idempotent:
  "(let (c1, h1) = processIntlConfig h x; (c2, h2) = processIntlConfig h1 c1
    in shallowEquals h2 c1 c2 \<and> props_of h2 c2 = props_of h2 c1 \<and> c2 \<noteq> c1)"
proof -
  define p1 where "p1 = map (\<lambda>k. (k, getField (props_of h x) k)) recognizedFields"
  define h1 where "h1 = h @ [Object p1]"
  define p2 where "p2 = map (\<lambda>k. (k, getField (props_of h1 (length h)) k)) recognizedFields"
  define h2 where "h2 = h1 @ [Object p2]"
  have first: "processIntlConfig h x = (length h, h1)"
    by (simp add: processIntlConfig_eq h1_def p1_def)
  have second: "processIntlConfig h1 (length h) = (length h1, h2)"
    by (simp add: processIntlConfig_eq h2_def p2_def)
  have at1: "props_of h1 (length h) = p1"
    by (simp add: h1_def props_of_alloc_new)
  have "p2 = p1"
    unfolding p2_def at1 unfolding p1_def by (simp add: getField_map_keys)
  moreover have "props_of h2 (length h) = p1"
    by (simp add: h2_def h1_def props_of_def nth_append)
  moreover have "props_of h2 (length h1) = p2"
    by (simp add: h2_def props_of_alloc_new)
  ultimately have "shallowEquals h2 (length h) (length h1)"
    and "props_of h2 (length h1) = props_of h2 (length h)"
    by (simp_all add: shallowEquals_same_props)
  moreover have "length h1 \<noteq> length h" by (simp add: h1_def)
  ultimately show ?thesis by (simp add: first second)
qed

section \<open>The provider keeps its cache\<close>

text \<open>
  Claim C7. Across the renders of one provider, a rebuild replaces the shape and the memo
  of the state and nothing else: the partial state that \<^verbatim>\<open>getDerivedStateFromProps\<close>
  returns has no cache. So the cache of the state is always the one that the provider
  created when it was constructed, and it is that cache that every call of
  \<^verbatim>\<open>createIntl\<close> is given, the one of the constructor and those of the rebuilds.
\<close>

theorem provider_keeps_cache:
  assumes "IntlProvider env h props = Inr (st0, h0, calls0)"
    and "renders env h0 st0 ps = Inr (st, h', calls)"
  shows "cache st0 = ObjRef (length h) \<and>
     (\<exists>config h2 h3. createIntl env h2 config (ObjRef (length h)) = Inr (intl st0, h3, calls0)) \<and>
     cache st = cache st0 \<and>
     (\<forall>hh p u h2 cs. getDerivedStateFromProps env hh p st = Inr (Some u, h2, cs) \<longrightarrow>
        (\<exists>shape config h1.
           u = \<lparr>new_cache = None, new_intl = Some shape, new_prevConfig = Some config\<rparr> \<and>
           createIntl env h1 config (ObjRef (length h)) = Inr (shape, h2, cs)))"
proof -
  have c0: "cache st0 = ObjRef (length h)" using IntlProvider_cache [OF assms(1)] by simp
  have i0: "\<exists>config h2 h3. createIntl env h2 config (ObjRef (length h)) = Inr (intl st0, h3, calls0)"
    using assms(1)
    by (fastforce simp: IntlProvider_def createIntlCache_def alloc_def Let_def
        split: prod.splits sum.splits)
  have c: "cache st = cache st0" using assms(2) by (rule renders_cache)
  have "\<exists>shape config h1.
           u = \<lparr>new_cache = None, new_intl = Some shape, new_prevConfig = Some config\<rparr> \<and>
           createIntl env h1 config (ObjRef (length h)) = Inr (shape, h2, cs)"
    if "getDerivedStateFromProps env hh p st = Inr (Some u, h2, cs)" for hh p u h2 cs
    using that c c0
    by (auto simp: getDerivedStateFromProps_def split: prod.splits if_splits sum.splits)
  then show ?thesis using c0 i0 c by blast
qed

theorem provider_keeps_cache_witness:
  "\<exists>st0 h0 calls0 st h' calls.
     IntlProvider env_sample h_props 0 = Inr (st0, h0, calls0) \<and>
     renders env_sample h0 st0 [1, 0] = Inr (st, h', calls) \<and>
     cache st0 = ObjRef 6 \<and> cache st = ObjRef 6"
proof -
  have t: "\<forall>p\<in>set [1, 0]. p < length h_props \<and>
              (\<not> truthy (getField (props_of h_props p) ''onError'') \<or>
               (\<exists>f. getField (props_of h_props p) ''onError'' = FunRef f))"
    by (simp add: h_props_def props_of_def getField_def)
  obtain st0 h0 calls0 where i: "IntlProvider env_sample h_props 0 = Inr (st0, h0, calls0)"
    and f: "take (length h_props) h0 = h_props" "length h_props \<le> length h0"
    using IntlProvider_returns [of env_sample h_props 0] canonicalizable_sample t by auto
  have "\<forall>p\<in>set [1, 0]. p < length h0 \<and>
              (\<not> truthy (getField (props_of h0 p) ''onError'') \<or>
               (\<exists>f. getField (props_of h0 p) ''onError'' = FunRef f))"
  proof
    fix p :: nat assume p: "p \<in> set [1, 0]"
    then have pl: "p < length h_props" using t by blast
    have "props_of h0 p = props_of h_props p"
      using f pl by (intro props_of_take [of "length h_props"]) simp_all
    then show "p < length h0 \<and>
              (\<not> truthy (getField (props_of h0 p) ''onError'') \<or>
               (\<exists>f. getField (props_of h0 p) ''onError'' = FunRef f))"
      using t p pl f by auto
  qed
  then obtain st h' calls where r: "renders env_sample h0 st0 [1, 0] = Inr (st, h', calls)"
    using renders_returns [of env_sample "[1, 0]" h0 st0] canonicalizable_sample by blast
  have l: "length h_props = 6" by (simp add: h_props_def)
  show ?thesis
    using i r provider_keeps_cache [OF i r] unfolding l by auto
qed

section \<open>Rich-text key assignment: properties\<close>

text \<open>
  Claim C8. For every map of substitution values,
  \<^verbatim>\<open>assignUniqueKeysToFormatXMLElementFnArgument\<close> returns a new map (a new object of
  the store) with the keys of the input, in which every function-valued entry is replaced
  by a key-assigning wrapper of that function (a function created by the call) and every
  other value is the one of the input. Nothing that existed before the call is changed;
  in particular the input map has the properties it had.
\<close>

theorem assignUniqueKeys_builds_new_map:
  assumes run: "assignUniqueKeysToFormatXMLElementFnArgument h (ObjRef a) = (r, h')"
  shows "r = ObjRef (length h) \<and> take (length h) h' = h \<and> props_of h' a = props_of h a \<and>
     map fst (props_of h' (length h)) = ownKeys (props_of h a) \<and>
     (\<forall>k\<in>set (ownKeys (props_of h a)).
        if isFormatXMLElementFn (getField (props_of h a) k)
        then (\<exists>b. getField (props_of h' (length h)) k = FunRef b \<and> length h < b \<and>
                  b < length h' \<and>
                  h' ! b = Closure (KeyAssigning (getField (props_of h a) k)))
        else getField (props_of h' (length h)) k = getField (props_of h a) k)"
proof -
  define h0 where "h0 = h @ [Object []]"
  define ks where "ks = ownKeys (props_of h a)"
  have r: "r = ObjRef (length h)" and h': "h' = reduceKeys h0 (ObjRef a) (length h) ks"
    using run
    by (simp_all add: assignUniqueKeysToFormatXMLElementFnArgument_def alloc_def h0_def ks_def)
  have len: "length h0 \<le> length h'" unfolding h' by (rule length_reduceKeys)
  have frame: "take (length h) h' = h"
    unfolding h' by (simp add: reduceKeys_frame h0_def)
  show ?thesis
  proof (cases "a < length h")
    case True
    have acc0: "props_of h0 (length h) = []" by (simp add: h0_def props_of_alloc_new)
    have a0: "props_of h0 a = props_of h a" using True by (simp add: h0_def props_of_alloc_old)
    have res: "map fst (props_of h' (length h)) = map fst (props_of h0 (length h)) @ ks \<and>
       (\<forall>k. k \<notin> set ks \<longrightarrow>
          getField (props_of h' (length h)) k = getField (props_of h0 (length h)) k) \<and>
       (\<forall>k\<in>set ks. \<not> isFormatXMLElementFn (getField (props_of h0 a) k) \<longrightarrow>
          getField (props_of h' (length h)) k = getField (props_of h0 a) k) \<and>
       (\<forall>k\<in>set ks. isFormatXMLElementFn (getField (props_of h0 a) k) \<longrightarrow>
          (\<exists>b. getField (props_of h' (length h)) k = FunRef b \<and> length h0 \<le> b \<and>
               b < length h' \<and>
               h' ! b = Closure (KeyAssigning (getField (props_of h0 a) k))))"
      unfolding h'
      using True by (intro reduceKeys_result) (simp_all add: h0_def ks_def ownKeys_distinct acc0 [unfolded h0_def])
    have same: "props_of h' a = props_of h a"
      using frame True len by (intro props_of_take [of "length h"]) (simp_all add: h0_def)
    have keys: "map fst (props_of h' (length h)) = ks" using res by (simp add: acc0)
    have each: "\<forall>k\<in>set ks.
        if isFormatXMLElementFn (getField (props_of h a) k)
        then (\<exists>b. getField (props_of h' (length h)) k = FunRef b \<and> length h < b \<and>
                  b < length h' \<and>
                  h' ! b = Closure (KeyAssigning (getField (props_of h a) k)))
        else getField (props_of h' (length h)) k = getField (props_of h a) k"
    proof
      fix k assume k: "k \<in> set ks"
      show "if isFormatXMLElementFn (getField (props_of h a) k)
        then (\<exists>b. getField (props_of h' (length h)) k = FunRef b \<and> length h < b \<and>
                  b < length h' \<and>
                  h' ! b = Closure (KeyAssigning (getField (props_of h a) k)))
        else getField (props_of h' (length h)) k = getField (props_of h a) k"
      proof (cases "isFormatXMLElementFn (getField (props_of h a) k)")
        case True
        then obtain b where "getField (props_of h' (length h)) k = FunRef b" "length h0 \<le> b"
            "b < length h'" "h' ! b = Closure (KeyAssigning (getField (props_of h a) k))"
          using res k by (auto simp: a0)
        moreover have "length h < length h0" by (simp add: h0_def)
        ultimately show ?thesis using True by auto
      next
        case False
        then show ?thesis using res k by (simp add: a0)
      qed
    qed
    show ?thesis using r frame same keys each unfolding ks_def by blast
  next
    case False
    then have empty: "props_of h a = []" by (simp add: props_of_dangling)
    then have "ks = []" by (simp add: ks_def ownKeys_empty_props)
    then have "h' = h0" by (simp add: h')
    then have "props_of h' a = []" "props_of h' (length h) = []"
      using False by (simp_all add: h0_def props_of_def nth_append)
    then show ?thesis using r frame empty by (simp add: ownKeys_empty_props)
  qed
qed

theorem assignUniqueKeys_builds_new_map_witness:
  "assignUniqueKeysToFormatXMLElementFnArgument h_values (ObjRef 0) =
     (ObjRef 2,
      h_values @ [Object [(''b'', FunRef 3), (''name'', JStr ''Eric'')],
                  Closure (KeyAssigning (FunRef 1))]) \<and>
   props_of (h_values @ [Object [(''b'', FunRef 3), (''name'', JStr ''Eric'')],
                         Closure (KeyAssigning (FunRef 1))]) 0 = props_of h_values 0"
proof -
  have run: "assignUniqueKeysToFormatXMLElementFnArgument h_values (ObjRef 0) =
     (ObjRef 2,
      h_values @ [Object [(''b'', FunRef 3), (''name'', JStr ''Eric'')],
                  Closure (KeyAssigning (FunRef 1))])"
    by (simp add: assignUniqueKeysToFormatXMLElementFnArgument_def h_values_def alloc_def
        ownKeys_def props_of_def getField_def reduceKeys_Cons Let_def)
  show ?thesis
    using run assignUniqueKeys_builds_new_map [OF run] by blast
qed

text \<open>
  Claim C9, amended. \<^verbatim>\<open>formatMessage\<close> passes its substitution values through the key
  assignment and calls the core formatter with the result. When the core formatter
  returns an array of parts, \<^verbatim>\<open>formatMessage\<close> returns what \<^verbatim>\<open>React.Children.toArray\<close>
  returns for that array. Where \<^verbatim>\<open>React.Children.toArray\<close> does what React does, and the
  parts are text, empty parts and elements, that is a new array, and the array of the core
  formatter is left as it was: each element is replaced by a new copy that carries a key,
  made from its own key or from its position; each text part is passed on as it is, and
  carries no key; empty parts are left out. When the core formatter returns anything
  else, \<^verbatim>\<open>formatMessage\<close> returns it unchanged: a string stays that string. An exception
  of the core formatter is passed on.
\<close>

theorem formatMessage_delegates:
  assumes a: "assignUniqueKeysToFormatXMLElementFnArgument h rawValues = (vals, h1)"
    and react: "\<forall>h2 a res. React_Children_toArray h2 (ArrRef a) = Some res \<longrightarrow>
                  Children_toArray env h2 (ArrRef a) = Inr res"
  shows
    "(\<forall>e. coreFormatMessage env h1 config formatters descriptor vals = Inl e \<longrightarrow>
        formatMessage env h config formatters descriptor rawValues = Inl e) \<and>
     (\<forall>a h2. coreFormatMessage env h1 config formatters descriptor vals = Inr (ArrRef a, h2) \<longrightarrow>
        formatMessage env h config formatters descriptor rawValues =
          Children_toArray env h2 (ArrRef a)) \<and>
     (\<forall>a h2 parts.
        coreFormatMessage env h1 config formatters descriptor vals = Inr (ArrRef a, h2) \<and>
        a < length h2 \<and> h2 ! a = Elements parts \<and> list_all (modelledPart h2) parts \<longrightarrow>
        (\<exists>r h3 rs.
           formatMessage env h config formatters descriptor rawValues = Inr (ArrRef r, h3) \<and>
           length h2 \<le> r \<and> r < length h3 \<and> h3 ! r = Elements rs \<and>
           take (length h2) h3 = h2 \<and>
           map (viewPart h3) rs = keyedViews h2 0 parts \<and>
           list_all (\<lambda>v. case v of ObjRef e \<Rightarrow> length h2 \<le> e | _ \<Rightarrow> True) rs)) \<and>
     (\<forall>chunks h2. coreFormatMessage env h1 config formatters descriptor vals = Inr (chunks, h2) \<and>
          \<not> isArray chunks \<longrightarrow>
        formatMessage env h config formatters descriptor rawValues = Inr (chunks, h2)) \<and>
     (\<forall>s h2. coreFormatMessage env h1 config formatters descriptor vals = Inr (JStr s, h2) \<longrightarrow>
        formatMessage env h config formatters descriptor rawValues = Inr (JStr s, h2))"
proof -
  have arr: "\<exists>r h3 rs.
           formatMessage env h config formatters descriptor rawValues = Inr (ArrRef r, h3) \<and>
           length h2 \<le> r \<and> r < length h3 \<and> h3 ! r = Elements rs \<and>
           take (length h2) h3 = h2 \<and>
           map (viewPart h3) rs = keyedViews h2 0 parts \<and>
           list_all (\<lambda>v. case v of ObjRef e \<Rightarrow> length h2 \<le> e | _ \<Rightarrow> True) rs"
    if c: "coreFormatMessage env h1 config formatters descriptor vals = Inr (ArrRef a, h2)"
      and p: "a < length h2" "h2 ! a = Elements parts" "list_all (modelledPart h2) parts"
    for a h2 parts
  proof -
    obtain r h3 rs where m: "React_Children_toArray h2 (ArrRef a) = Some (ArrRef r, h3)"
      and rest: "length h2 \<le> r" "r < length h3" "h3 ! r = Elements rs"
        "take (length h2) h3 = h2" "map (viewPart h3) rs = keyedViews h2 0 parts"
        "list_all (\<lambda>v. case v of ObjRef e \<Rightarrow> length h2 \<le> e | _ \<Rightarrow> True) rs"
      using React_Children_toArray_views [OF p] by blast
    have "Children_toArray env h2 (ArrRef a) = Inr (ArrRef r, h3)"
      using react m by blast
    then have "formatMessage env h config formatters descriptor rawValues = Inr (ArrRef r, h3)"
      using a c by (simp add: formatMessage_def)
    then show ?thesis using rest by blast
  qed
  show ?thesis
    apply (intro conjI allI impI)
    using a apply (simp add: formatMessage_def)
    using a apply (simp add: formatMessage_def)
      apply (elim conjE)
      apply (erule (3) arr)
    using a apply (simp add: formatMessage_def)
    using a apply (simp add: formatMessage_def)
    done
qed

theorem formatMessage_delegates_witness:
  "assignUniqueKeysToFormatXMLElementFnArgument h_rich (ObjRef 0) =
     (ObjRef 2, h_rich @ [Object [(''name'', JStr ''Eric'')]]) \<and>
   coreFormatMessage env_react (h_rich @ [Object [(''name'', JStr ''Eric'')]])
       Undefined Undefined Undefined (ObjRef 2) =
     Inr (ArrRef 3, h_rich @ [Object [(''name'', JStr ''Eric'')],
                              Elements [JStr ''Hello, '', ObjRef 1]]) \<and>
   list_all (modelledPart (h_rich @ [Object [(''name'', JStr ''Eric'')],
                                     Elements [JStr ''Hello, '', ObjRef 1]]))
     [JStr ''Hello, '', ObjRef 1] \<and>
   (\<exists>r h3 rs.
      formatMessage env_react h_rich Undefined Undefined Undefined (ObjRef 0) =
        Inr (ArrRef r, h3) \<and>
      h3 ! r = Elements rs \<and>
      take 4 h3 = h_rich @ [Object [(''name'', JStr ''Eric'')],
                            Elements [JStr ''Hello, '', ObjRef 1]] \<and>
      map (viewPart h3) rs = [TextPart (JStr ''Hello, ''), KeyedElement ''.1'' (JStr ''b'')]) \<and>
   assignUniqueKeysToFormatXMLElementFnArgument h_values (ObjRef 0) =
     (ObjRef 2,
      h_values @ [Object [(''b'', FunRef 3), (''name'', JStr ''Eric'')],
                  Closure (KeyAssigning (FunRef 1))]) \<and>
   formatMessage env_sample h_values Undefined Undefined Undefined (ObjRef 0) =
     Inr (JStr ''Hello'',
          h_values @ [Object [(''b'', FunRef 3), (''name'', JStr ''Eric'')],
                      Closure (KeyAssigning (FunRef 1))])"
proof -
  let ?h1 = "h_rich @ [Object [(''name'', JStr ''Eric'')]]"
  let ?h2 = "h_rich @ [Object [(''name'', JStr ''Eric'')], Elements [JStr ''Hello, '', ObjRef 1]]"
  have run: "assignUniqueKeysToFormatXMLElementFnArgument h_rich (ObjRef 0) = (ObjRef 2, ?h1)"
    by (simp add: assignUniqueKeysToFormatXMLElementFnArgument_def h_rich_def alloc_def
        ownKeys_def props_of_def getField_def reduceKeys_Cons Let_def)
  have react: "\<forall>h2 a res. React_Children_toArray h2 (ArrRef a) = Some res \<longrightarrow>
                  Children_toArray env_react h2 (ArrRef a) = Inr res"
    by (simp add: env_react_def)
  have core: "coreFormatMessage env_react ?h1 Undefined Undefined Undefined (ObjRef 2) =
      Inr (ArrRef 3, ?h2)"
    by (simp add: env_react_def h_rich_def)
  have m: "list_all (modelledPart ?h2) [JStr ''Hello, '', ObjRef 1]"
    by (simp add: h_rich_def)
  have at: "3 < length ?h2" "?h2 ! 3 = Elements [JStr ''Hello, '', ObjRef 1]"
    by (simp_all add: h_rich_def)
  note key = elementKey_second
  have views: "keyedViews ?h2 0 [JStr ''Hello, '', ObjRef 1] =
      [TextPart (JStr ''Hello, ''), KeyedElement ''.1'' (JStr ''b'')]"
    by (simp add: h_rich_def key)
  have len: "length ?h2 = 4" by (simp add: h_rich_def)
  obtain r h3 rs where
    "formatMessage env_react h_rich Undefined Undefined Undefined (ObjRef 0) = Inr (ArrRef r, h3)"
    "h3 ! r = Elements rs" "take (length ?h2) h3 = ?h2"
    "map (viewPart h3) rs = keyedViews ?h2 0 [JStr ''Hello, '', ObjRef 1]"
    using formatMessage_delegates [OF run react, of Undefined Undefined Undefined,
        THEN conjunct2, THEN conjunct2, THEN conjunct1, rule_format,
        OF conjI [OF core conjI [OF at(1) conjI [OF at(2) m]]]]
    by (elim exE conjE) blast
  then have rich: "\<exists>r h3 rs.
      formatMessage env_react h_rich Undefined Undefined Undefined (ObjRef 0) =
        Inr (ArrRef r, h3) \<and>
      h3 ! r = Elements rs \<and> take 4 h3 = ?h2 \<and>
      map (viewPart h3) rs = [TextPart (JStr ''Hello, ''), KeyedElement ''.1'' (JStr ''b'')]"
    unfolding views len by (intro exI conjI)
  have run': "assignUniqueKeysToFormatXMLElementFnArgument h_values (ObjRef 0) =
     (ObjRef 2,
      h_values @ [Object [(''b'', FunRef 3), (''name'', JStr ''Eric'')],
                  Closure (KeyAssigning (FunRef 1))])"
    by (simp add: assignUniqueKeysToFormatXMLElementFnArgument_def h_values_def alloc_def
        ownKeys_def props_of_def getField_def reduceKeys_Cons Let_def)
  have plain: "formatMessage env_sample h_values Undefined Undefined Undefined (ObjRef 0) =
     Inr (JStr ''Hello'',
          h_values @ [Object [(''b'', FunRef 3), (''name'', JStr ''Eric'')],
                      Closure (KeyAssigning (FunRef 1))])"
    by (simp add: formatMessage_def run' env_sample_def)
  show ?thesis
    apply (intro conjI)
         apply (rule run)
        apply (rule core)
       apply (rule m)
      apply (rule rich)
     apply (rule run')
    apply (rule plain)
    done
qed

text \<open>
  Claim C9 as it was stated fails for a string part: of the array of the string
  \<^verbatim>\<open>"Hello, "\<close> and an element, \<^verbatim>\<open>formatMessage\<close> returns an array whose first part is
  that string, not wrapped and without a key; only the element has got one.
\<close>

theorem formatMessage_string_part_carries_no_key:
  "formatMessage env_react h_rich Undefined Undefined Undefined (ObjRef 0) =
     Inr (ArrRef 5, h_rich_after) \<and>
   h_rich_after ! 5 = Elements [JStr ''Hello, '', ObjRef 4] \<and>
   map (viewPart h_rich_after) [JStr ''Hello, '', ObjRef 4] =
     [TextPart (JStr ''Hello, ''), KeyedElement ''.1'' (JStr ''b'')] \<and>
   \<not> list_all (\<lambda>v. carriesKey (viewPart h_rich_after v)) [JStr ''Hello, '', ObjRef 4]"
proof -
  have run: "assignUniqueKeysToFormatXMLElementFnArgument h_rich (ObjRef 0) =
      (ObjRef 2, h_rich @ [Object [(''name'', JStr ''Eric'')]])"
    by (simp add: assignUniqueKeysToFormatXMLElementFnArgument_def h_rich_def alloc_def
        ownKeys_def props_of_def getField_def reduceKeys_Cons Let_def)
  note key = elementKey_second
  have "formatMessage env_react h_rich Undefined Undefined Undefined (ObjRef 0) =
     Inr (ArrRef 5, h_rich_after)"
    by (simp add: formatMessage_def run env_react_def React_Children_toArray_def key
        h_rich_after_def) (simp add: h_rich_def key)
  then show ?thesis
    by (simp add: h_rich_after_def h_rich_def)
qed

text \<open>
  Claim C10. When the substitution values are absent (\<^verbatim>\<open>undefined\<close>), they are returned
  as they are and no map is created: the store is unchanged. So \<^verbatim>\<open>formatMessage\<close>
  without values assigns no keys and calls the core formatter with \<^verbatim>\<open>undefined\<close> as
  its values.
\<close>

theorem assignUniqueKeys_absent_values:
  "assignUniqueKeysToFormatXMLElementFnArgument h Undefined = (Undefined, h) \<and>
   formatMessage env h config formatters descriptor Undefined =
     (case coreFormatMessage env h config formatters descriptor Undefined of
        Inl e \<Rightarrow> Inl e
      | Inr (chunks, h2) \<Rightarrow>
          if isArray chunks then Children_toArray env h2 chunks else Inr (chunks, h2))"
  by (simp add: assignUniqueKeysToFormatXMLElementFnArgument_def formatMessage_def)

end
